theory Spec2Isabelle
  imports Complex_Main
begin

section \<open>Data model\<close>

text \<open>
  The alignment code of the repository lives in \<^verbatim>\<open>utils/imageTransform.ts\<close> (region
  based translation and the composition of transforms) and in \<^verbatim>\<open>utils/imageAlignment.ts\<close>
  (correspondence filter, rotation search and the orchestration over the image list), and
  \<^verbatim>\<open>App.tsx\<close> holds the button handlers in front of the orchestration. The repository
  also carries an implementation note, a document whose section 3.1 lists
  \<^verbatim>\<open>matchFeatures\<close> and \<^verbatim>\<open>calculateOptimalRotation\<close> in a shorter version: there the
  outliers are removed whenever the distance stage kept anything (in
  \<^verbatim>\<open>imageAlignment.ts\<close> only from four kept matches on) and the rotation search steps by
  \<^verbatim>\<open>0.5\<close> (there by \<^verbatim>\<open>0.1\<close>). Both versions are modelled; the names of the note's version
  are the plain ones, the names of the version in \<^verbatim>\<open>imageAlignment.ts\<close> end in \<open>_impl\<close>.

  The translation solvers, the composition of transforms, the renderer and the filter of
  the implementation note are modelled over the reals: their arithmetic is exact and every
  value is finite. The rotation search and the filter of \<^verbatim>\<open>imageAlignment.ts\<close> are
  modelled in double arithmetic, with rounding, overflow to \<^verbatim>\<open>Infinity\<close> and \<^verbatim>\<open>NaN\<close>,
  because what they return depends on it. Console output is not modelled.
\<close>

record Transform =
  scale :: real
  rotation :: real
  translateX :: real
  translateY :: real

text \<open>The selected area \<^verbatim>\<open>{x, y, width, height}\<close>, in the pixel space of its image.\<close>

record Area =
  area_x :: real
  area_y :: real
  area_width :: real
  area_height :: real

record Point =
  pt_x :: real
  pt_y :: real

section \<open>imageTransform.ts\<close>

text \<open>
  \<^verbatim>\<open>calculateCenterImageTransform(width, height, currentTransform, selectedArea?)\<close>:
  the optional area is an \<^typ>\<open>Area option\<close>; without an area the translation stays
  at its initial \<open>0\<close>.
\<close>

definition calculateCenterImageTransform ::
  "real \<Rightarrow> real \<Rightarrow> Transform \<Rightarrow> Area option \<Rightarrow> Transform" where
  "calculateCenterImageTransform width height currentTransform selectedArea =
     (let (translateX0, translateY0) =
        (case selectedArea of
           None \<Rightarrow> (0, 0)
         | Some a \<Rightarrow>
             (let selectedCenterX = area_x a + area_width a / 2;
                  selectedCenterY = area_y a + area_height a / 2;
                  relativeCenterX = selectedCenterX - width / 2;
                  relativeCenterY = selectedCenterY - height / 2
              in (- relativeCenterX, - relativeCenterY)))
      in \<lparr>scale = 1, rotation = rotation currentTransform,
          translateX = translateX0, translateY = translateY0\<rparr>)"

text \<open>
  \<^verbatim>\<open>calculateAlignImagesTransform(image1Width, image1Height, image1Transform,
  image2Width, image2Height, image2Transform, image1SelectedArea?, image2SelectedArea?)\<close>:
  image 1 is the image already placed, image 2 the one being placed. The factor
  \<^verbatim>\<open>* 1.0\<close> of the source is kept.
\<close>

definition calculateAlignImagesTransform ::
  "real \<Rightarrow> real \<Rightarrow> Transform \<Rightarrow> real \<Rightarrow> real \<Rightarrow> Transform \<Rightarrow>
   Area option \<Rightarrow> Area option \<Rightarrow> Transform" where
  "calculateAlignImagesTransform image1Width image1Height image1Transform
       image2Width image2Height image2Transform image1SelectedArea image2SelectedArea =
     (let (translateX0, translateY0) =
        (case (image1SelectedArea, image2SelectedArea) of
           (Some a1, Some a2) \<Rightarrow>
             (let image1SelectedCenterX = area_x a1 + area_width a1 / 2;
                  image1SelectedCenterY = area_y a1 + area_height a1 / 2;
                  image2SelectedCenterX = area_x a2 + area_width a2 / 2;
                  image2SelectedCenterY = area_y a2 + area_height a2 / 2;
                  image1CanvasCenterX =
                    translateX image1Transform + (image1SelectedCenterX - image1Width / 2) * 1;
                  image1CanvasCenterY =
                    translateY image1Transform + (image1SelectedCenterY - image1Height / 2) * 1;
                  image2CanvasCenterX = (image2SelectedCenterX - image2Width / 2) * 1;
                  image2CanvasCenterY = (image2SelectedCenterY - image2Height / 2) * 1
              in (image1CanvasCenterX - image2CanvasCenterX,
                  image1CanvasCenterY - image2CanvasCenterY))
         | _ \<Rightarrow> (0, 0))
      in \<lparr>scale = 1, rotation = rotation image2Transform,
          translateX = translateX0, translateY = translateY0\<rparr>)"



text \<open>
  Where a point of an image lands: the renderer (\<^verbatim>\<open>applyTransformToImage\<close>) moves the
  origin to the middle of the canvas plus the translation, rotates by \<^verbatim>\<open>rotation\<close>
  degrees, scales, and draws the image with its own middle at the origin. \<open>canvasPoint\<close>
  is the position of the image point \<open>p\<close> relative to the middle of the canvas.
\<close>

definition canvasPoint :: "Transform \<Rightarrow> real \<Rightarrow> real \<Rightarrow> Point \<Rightarrow> Point" where
  "canvasPoint t width height p =
     (let rad = rotation t * pi / 180;
          dx = pt_x p - width / 2;
          dy = pt_y p - height / 2
      in \<lparr>pt_x = translateX t + scale t * (dx * cos rad - dy * sin rad),
          pt_y = translateY t + scale t * (dx * sin rad + dy * cos rad)\<rparr>)"

text \<open>The centre of a selected area, \<^verbatim>\<open>x + width / 2\<close> and \<^verbatim>\<open>y + height / 2\<close>.\<close>

definition areaCenter :: "Area \<Rightarrow> Point" where
  "areaCenter a = \<lparr>pt_x = area_x a + area_width a / 2, pt_y = area_y a + area_height a / 2\<rparr>"

section \<open>Correspondences and key points\<close>

text \<open>
  A match of the brute-force matcher (\<^verbatim>\<open>cv.DMatch\<close>): the indices of the two key points
  and the distance score. A \<^verbatim>\<open>KeyPointVector\<close> is read only through
  \<^verbatim>\<open>get(i).pt\<close>, so it is the list of its points; \<^verbatim>\<open>get\<close> out of range yields
  \<^verbatim>\<open>undefined\<close> and the following \<^verbatim>\<open>.pt\<close> throws, which is \<^term>\<open>None\<close> here.
\<close>

record DMatch =
  queryIdx :: nat
  trainIdx :: nat
  distance :: real

definition getKeyPoint :: "Point list \<Rightarrow> nat \<Rightarrow> Point option" where
  "getKeyPoint keypoints i = (if i < length keypoints then Some (keypoints ! i) else None)"

section \<open>Double arithmetic\<close>

text \<open>
  The filter of \<^verbatim>\<open>imageAlignment.ts\<close> and the rotation search compute with doubles,
  and what they return depends on it: a sum can overflow to \<^verbatim>\<open>Infinity\<close>, an
  operation on infinities can give \<^verbatim>\<open>NaN\<close>, and every comparison with \<^verbatim>\<open>NaN\<close> is
  false. A \<open>number\<close> is a finite value, one of the infinities or \<^verbatim>\<open>NaN\<close>. The rounding
  of a real result to a double and the library functions \<^verbatim>\<open>Math.cos\<close> and \<^verbatim>\<open>Math.sin\<close>
  are parameters (\<open>Arith\<close>): nothing is assumed of them. A rounded result beyond the
  largest double overflows. \<^verbatim>\<open>Math.pow(x, 2)\<close> is taken as the rounded product. The
  sign of a zero is not modelled.
\<close>

datatype number = Num real | PosInf | NegInf | NaN

record Arith =
  rnd :: "real \<Rightarrow> real"
  cosine :: "real \<Rightarrow> real"
  sine :: "real \<Rightarrow> real"

definition maxNumber :: real where
  "maxNumber = (2 - 1 / 2 ^ 52) * 2 ^ 1023"

definition fl :: "Arith \<Rightarrow> real \<Rightarrow> number" where
  "fl ar x =
     (if maxNumber < rnd ar x then PosInf
      else if rnd ar x < - maxNumber then NegInf
      else Num (rnd ar x))"

fun nneg :: "number \<Rightarrow> number" where
  "nneg (Num a) = Num (- a)"
| "nneg PosInf = NegInf"
| "nneg NegInf = PosInf"
| "nneg NaN = NaN"

fun nadd :: "Arith \<Rightarrow> number \<Rightarrow> number \<Rightarrow> number" where
  "nadd ar NaN y = NaN"
| "nadd ar x NaN = NaN"
| "nadd ar (Num a) (Num b) = fl ar (a + b)"
| "nadd ar PosInf NegInf = NaN"
| "nadd ar NegInf PosInf = NaN"
| "nadd ar PosInf y = PosInf"
| "nadd ar NegInf y = NegInf"
| "nadd ar (Num a) y = y"

definition nsub :: "Arith \<Rightarrow> number \<Rightarrow> number \<Rightarrow> number" where
  "nsub ar x y = nadd ar x (nneg y)"

text \<open>The sign of a number that is not \<^verbatim>\<open>NaN\<close>: \<open>-1\<close>, \<open>0\<close> or \<open>1\<close>.\<close>

fun nsign :: "number \<Rightarrow> int" where
  "nsign (Num a) = (if a < 0 then - 1 else if a = 0 then 0 else 1)"
| "nsign PosInf = 1"
| "nsign NegInf = - 1"
| "nsign NaN = 0"

definition signedInf :: "int \<Rightarrow> number" where
  "signedInf s = (if s = 0 then NaN else if 0 < s then PosInf else NegInf)"

fun nmul :: "Arith \<Rightarrow> number \<Rightarrow> number \<Rightarrow> number" where
  "nmul ar NaN y = NaN"
| "nmul ar x NaN = NaN"
| "nmul ar (Num a) (Num b) = fl ar (a * b)"
| "nmul ar x y = signedInf (nsign x * nsign y)"

fun ndiv :: "Arith \<Rightarrow> number \<Rightarrow> number \<Rightarrow> number" where
  "ndiv ar NaN y = NaN"
| "ndiv ar x NaN = NaN"
| "ndiv ar (Num a) (Num b) = (if b = 0 then signedInf (nsign (Num a)) else fl ar (a / b))"
| "ndiv ar (Num a) y = Num 0"
| "ndiv ar x (Num b) = signedInf (nsign x * (if b < 0 then - 1 else 1))"
| "ndiv ar x y = NaN"

fun nsqrt :: "Arith \<Rightarrow> number \<Rightarrow> number" where
  "nsqrt ar (Num a) = (if a < 0 then NaN else fl ar (sqrt a))"
| "nsqrt ar PosInf = PosInf"
| "nsqrt ar x = NaN"

definition npow2 :: "Arith \<Rightarrow> number \<Rightarrow> number" where
  "npow2 ar x = nmul ar x x"

fun ncos :: "Arith \<Rightarrow> number \<Rightarrow> number" where
  "ncos ar (Num a) = Num (cosine ar a)"
| "ncos ar x = NaN"

fun nsin :: "Arith \<Rightarrow> number \<Rightarrow> number" where
  "nsin ar (Num a) = Num (sine ar a)"
| "nsin ar x = NaN"

text \<open>The comparison \<^verbatim>\<open><\<close>.\<close>

fun nlt :: "number \<Rightarrow> number \<Rightarrow> bool" where
  "nlt NaN y = False"
| "nlt x NaN = False"
| "nlt (Num a) (Num b) = (a < b)"
| "nlt x PosInf = (x \<noteq> PosInf)"
| "nlt NegInf y = (y \<noteq> NegInf)"
| "nlt x y = False"

text \<open>\<^verbatim>\<open>Math.min\<close> of two numbers.\<close>

definition nmin :: "number \<Rightarrow> number \<Rightarrow> number" where
  "nmin x y = (if x = NaN \<or> y = NaN then NaN else if nlt y x then y else x)"

text \<open>The arithmetic that rounds nothing and still overflows; it serves as an instance.\<close>

definition exactArith :: Arith where
  "exactArith = \<lparr>rnd = id, cosine = cos, sine = sin\<rparr>"

section \<open>The correspondence filter of matchFeatures\<close>

text \<open>
  \<^verbatim>\<open>matchFeatures\<close> first runs the external matcher and copies its result into
  \<^verbatim>\<open>matchesArray\<close>; everything after that is a function of this array, \<open>filterMatches\<close>.
  \<^verbatim>\<open>reduce\<close> is a left fold, \<^verbatim>\<open>sort((a, b) => a - b)\<close> sorts ascending.
\<close>

definition meanDistance :: "real list \<Rightarrow> real" where
  "meanDistance ds = foldl (\<lambda>sum d. sum + d) 0 ds / real (length ds)"

definition stdDistance :: "real list \<Rightarrow> real" where
  "stdDistance ds =
     sqrt (foldl (\<lambda>sum d. sum + (d - meanDistance ds) ^ 2) 0 ds / real (length ds))"

definition medianDistance :: "DMatch list \<Rightarrow> real" where
  "medianDistance matchesArray =
     (let distances = sort (map distance matchesArray)
      in distances ! (length distances div 2))"

definition distanceThreshold :: "DMatch list \<Rightarrow> real" where
  "distanceThreshold matchesArray = min 50 (medianDistance matchesArray * (8 / 10))"

definition removeOutliers :: "DMatch list \<Rightarrow> DMatch list" where
  "removeOutliers goodMatches =
     (let matchDistances = map distance goodMatches;
          meanDist = meanDistance matchDistances;
          stdDist = stdDistance matchDistances;
          outlierThreshold = meanDist + 2 * stdDist
      in filter (\<lambda>m. distance m < outlierThreshold) goodMatches)"

text \<open>The filter as the implementation note gives it: outliers are removed whenever the
  distance filter kept anything.\<close>

definition filterMatches :: "DMatch list \<Rightarrow> DMatch list" where
  "filterMatches matchesArray =
     (if length matchesArray = 0 then []
      else
        let goodMatches =
              filter (\<lambda>m. distance m < distanceThreshold matchesArray) matchesArray
        in if length goodMatches > 0 then removeOutliers goodMatches else goodMatches)"

text \<open>
  The filter of \<^verbatim>\<open>imageAlignment.ts\<close>, the one the program runs, in double arithmetic.
  The distances are finite doubles and sorting them computes nothing. The ratio test is
  switched off by a constant and leaves \<^verbatim>\<open>goodMatches\<close> as it is; outliers are removed
  only when at least four matches were kept.
\<close>

definition distanceThreshold_impl :: "Arith \<Rightarrow> DMatch list \<Rightarrow> number" where
  "distanceThreshold_impl ar matchesArray =
     nmin (Num 50) (nmul ar (Num (medianDistance matchesArray)) (fl ar (8 / 10)))"

definition meanDist_impl :: "Arith \<Rightarrow> real list \<Rightarrow> number" where
  "meanDist_impl ar distances =
     ndiv ar (foldl (\<lambda>sum d. nadd ar sum (Num d)) (Num 0) distances)
       (Num (real (length distances)))"

definition stdDist_impl :: "Arith \<Rightarrow> real list \<Rightarrow> number" where
  "stdDist_impl ar distances =
     nsqrt ar
       (ndiv ar
          (foldl (\<lambda>sum d. nadd ar sum (npow2 ar (nsub ar (Num d) (meanDist_impl ar distances))))
             (Num 0) distances)
          (Num (real (length distances))))"

definition outlierThreshold_impl :: "Arith \<Rightarrow> real list \<Rightarrow> number" where
  "outlierThreshold_impl ar distances =
     nadd ar (meanDist_impl ar distances) (nmul ar (Num 2) (stdDist_impl ar distances))"

definition filterMatches_impl :: "Arith \<Rightarrow> DMatch list \<Rightarrow> DMatch list" where
  "filterMatches_impl ar matchesArray =
     (if length matchesArray = 0 then []
      else
        let goodMatches =
              filter (\<lambda>m. nlt (Num (distance m)) (distanceThreshold_impl ar matchesArray))
                matchesArray
        in if length goodMatches \<ge> 4
           then filter (\<lambda>m. nlt (Num (distance m))
                              (outlierThreshold_impl ar (map distance goodMatches)))
                  goodMatches
           else goodMatches)"

section \<open>The rotation search of calculateOptimalRotation\<close>

record RotationResult =
  res_rotation :: real
  res_translateY :: real

text \<open>The first loop: the points of the matched key points, in the order of the matches.\<close>

fun matchedPoints :: "Point list \<Rightarrow> Point list \<Rightarrow> DMatch list \<Rightarrow> (Point list \<times> Point list) option" where
  "matchedPoints keypoints1 keypoints2 [] = Some ([], [])"
| "matchedPoints keypoints1 keypoints2 (m # matches) =
     (case getKeyPoint keypoints1 (queryIdx m) of
        None \<Rightarrow> None
      | Some kp1 \<Rightarrow>
          (case getKeyPoint keypoints2 (trainIdx m) of
             None \<Rightarrow> None
           | Some kp2 \<Rightarrow>
               (case matchedPoints keypoints1 keypoints2 matches of
                  None \<Rightarrow> None
                | Some (points1, points2) \<Rightarrow> Some (kp1 # points1, kp2 # points2))))"

text \<open>
  The body of the inner loop: \<open>p2\<close> turned about the centre, and its distance to \<open>p1\<close>,
  in double arithmetic. The coordinates are finite doubles. (\<^verbatim>\<open>imageAlignment.ts\<close> writes
  the squares as products.)
\<close>

definition rotatedDistance :: "Arith \<Rightarrow> Point \<Rightarrow> number \<Rightarrow> number \<Rightarrow> Point \<Rightarrow> Point \<Rightarrow> number" where
  "rotatedDistance ar rotationCenter c s p1 p2 =
     (let relativeX = nsub ar (Num (pt_x p2)) (Num (pt_x rotationCenter));
          relativeY = nsub ar (Num (pt_y p2)) (Num (pt_y rotationCenter));
          rotatedX = nsub ar (nmul ar relativeX c) (nmul ar relativeY s);
          rotatedY = nadd ar (nmul ar relativeX s) (nmul ar relativeY c);
          finalX = nadd ar rotatedX (Num (pt_x rotationCenter));
          finalY = nadd ar rotatedY (Num (pt_y rotationCenter))
      in nsqrt ar (nadd ar (npow2 ar (nsub ar (Num (pt_x p1)) finalX))
                           (npow2 ar (nsub ar (Num (pt_y p1)) finalY))))"

text \<open>\<^verbatim>\<open>(angle * Math.PI) / 180\<close>, and the inner loop: the distances are added in the order
  of the points, from \<open>0\<close>.\<close>

definition radians :: "Arith \<Rightarrow> number \<Rightarrow> number" where
  "radians ar angle = ndiv ar (nmul ar angle (fl ar pi)) (Num 180)"

definition totalDistance :: "Arith \<Rightarrow> Point list \<Rightarrow> Point list \<Rightarrow> Point \<Rightarrow> real \<Rightarrow> number" where
  "totalDistance ar points1 points2 rotationCenter angle =
     (let rad = radians ar (Num angle);
          c = ncos ar rad;
          s = nsin ar rad
      in foldl (\<lambda>total (p1, p2). nadd ar total (rotatedDistance ar rotationCenter c s p1 p2))
           (Num 0) (zip points1 points2))"

text \<open>
  The outer loop \<^verbatim>\<open>for (let angle = -30; angle <= 30; angle += 0.5)\<close> of the
  implementation note, with the loop variable, the best angle so far and the minimum so
  far as arguments; the minimum starts at \<^verbatim>\<open>Infinity\<close>. The loop variable only takes
  multiples of one half between \<open>-30\<close> and \<open>30.5\<close>, which are doubles and whose sums with
  \<^verbatim>\<open>0.5\<close> are exact, so it is a real.
\<close>

function rotationLoop ::
  "Arith \<Rightarrow> Point list \<Rightarrow> Point list \<Rightarrow> Point \<Rightarrow> real \<Rightarrow> real \<Rightarrow> number \<Rightarrow> real" where
  "rotationLoop ar points1 points2 rotationCenter angle bestRotation minTotalDistance =
     (if angle \<le> 30 then
        (if nlt (totalDistance ar points1 points2 rotationCenter angle) minTotalDistance
         then rotationLoop ar points1 points2 rotationCenter (angle + 1 / 2) angle
                (totalDistance ar points1 points2 rotationCenter angle)
         else rotationLoop ar points1 points2 rotationCenter (angle + 1 / 2) bestRotation
                minTotalDistance)
      else bestRotation)"
  by pat_completeness auto
termination
  by (relation "measure (\<lambda>(ar, points1, points2, rotationCenter, angle, bestRotation, minTotalDistance).
        nat \<lceil>(30 - angle) * 2 + 1\<rceil>)") (auto simp: algebra_simps, linarith+)

declare rotationLoop.simps [simp del]

text \<open>
  \<^verbatim>\<open>calculateOptimalRotation(keypoints1, keypoints2, matches, currentRotation,
  selectedAreaCenter?)\<close> as the implementation note gives it. The result is \<^term>\<open>None\<close>
  when reading a key point throws.
\<close>

definition calculateOptimalRotation ::
  "Arith \<Rightarrow> Point list \<Rightarrow> Point list \<Rightarrow> DMatch list \<Rightarrow> real \<Rightarrow> Point option
   \<Rightarrow> RotationResult option" where
  "calculateOptimalRotation ar keypoints1 keypoints2 matches currentRotation selectedAreaCenter =
     (if length matches < 3 then Some \<lparr>res_rotation = currentRotation, res_translateY = 0\<rparr>
      else
        (case matchedPoints keypoints1 keypoints2 matches of
           None \<Rightarrow> None
         | Some (points1, points2) \<Rightarrow>
             (let rotationCenter =
                    (case selectedAreaCenter of
                       Some center \<Rightarrow> center
                     | None \<Rightarrow> \<lparr>pt_x = 0, pt_y = 0\<rparr>)
              in Some \<lparr>res_rotation =
                          rotationLoop ar points1 points2 rotationCenter (- 30) currentRotation PosInf,
                        res_translateY = 0\<rparr>)))"

text \<open>
  The loop of \<^verbatim>\<open>imageAlignment.ts\<close> steps by \<^verbatim>\<open>0.1\<close>, which is no double: every
  addition rounds, and the loop variable is a number. Whether and where the loop ends
  depends on the rounding, so the loop is a partial function and \<^term>\<open>None\<close> stands for
  a loop that does not end. A loop variable that is \<^verbatim>\<open>-Infinity\<close> stays so for ever;
  \<^verbatim>\<open>Infinity\<close> and \<^verbatim>\<open>NaN\<close> fail the test \<^verbatim>\<open>angle <= 30\<close>.
\<close>

fun finiteValue :: "number \<Rightarrow> real option" where
  "finiteValue (Num a) = Some a"
| "finiteValue x = None"

partial_function (option) rotationLoop_impl ::
  "Arith \<Rightarrow> Point list \<Rightarrow> Point list \<Rightarrow> Point \<Rightarrow> number \<Rightarrow> real \<Rightarrow> number \<Rightarrow> real option" where
  "rotationLoop_impl ar points1 points2 rotationCenter angle optimalRotation minTotalDistance =
     (case finiteValue angle of
        Some a \<Rightarrow>
          if a \<le> 30 then
            (if nlt (totalDistance ar points1 points2 rotationCenter a) minTotalDistance
             then rotationLoop_impl ar points1 points2 rotationCenter
                    (nadd ar angle (fl ar (1 / 10))) a
                    (totalDistance ar points1 points2 rotationCenter a)
             else rotationLoop_impl ar points1 points2 rotationCenter
                    (nadd ar angle (fl ar (1 / 10))) optimalRotation minTotalDistance)
          else Some optimalRotation
      | None \<Rightarrow> if angle = NegInf then None else Some optimalRotation)"

text \<open>The function of \<^verbatim>\<open>imageAlignment.ts\<close>; its closing verification loop only logs. It
  has no result when reading a key point throws or when the loop does not end.\<close>

definition calculateOptimalRotation_impl ::
  "Arith \<Rightarrow> Point list \<Rightarrow> Point list \<Rightarrow> DMatch list \<Rightarrow> real \<Rightarrow> Point option
   \<Rightarrow> RotationResult option" where
  "calculateOptimalRotation_impl ar keypoints1 keypoints2 matches currentRotation selectedAreaCenter =
     (if length matches < 3 then Some \<lparr>res_rotation = currentRotation, res_translateY = 0\<rparr>
      else
        (case matchedPoints keypoints1 keypoints2 matches of
           None \<Rightarrow> None
         | Some (points1, points2) \<Rightarrow>
             (let rotationCenter =
                    (case selectedAreaCenter of
                       Some center \<Rightarrow> center
                     | None \<Rightarrow> \<lparr>pt_x = 0, pt_y = 0\<rparr>)
              in (case rotationLoop_impl ar points1 points2 rotationCenter (Num (- 30))
                         currentRotation PosInf of
                    None \<Rightarrow> None
                  | Some optimalRotation \<Rightarrow>
                      Some \<lparr>res_rotation = optimalRotation, res_translateY = 0\<rparr>))))"

section \<open>imageAlignment.ts: one pair\<close>

text \<open>
  \<^verbatim>\<open>ImageData\<close>, without the \<^verbatim>\<open>File\<close> object, which the alignment never reads.
\<close>

record ImageData =
  img_id :: string
  url :: string
  width :: real
  height :: real
  selectedArea :: "Area option"
  transform :: Transform

text \<open>
  What lies outside the repository: whether \<^verbatim>\<open>window.cv\<close> is loaded, decoding an image
  into a matrix (\<^verbatim>\<open>imageToMat\<close>), the ORB detector (\<^verbatim>\<open>extractORBFeatures\<close>, key points
  and descriptors) and the brute-force matcher inside \<^verbatim>\<open>matchFeatures\<close>. Each of the
  three calls may throw, which is \<^term>\<open>None\<close>.
\<close>

record ('m, 'd) Env =
  arith :: Arith
  cvLoaded :: bool
  imageToMat :: "string \<Rightarrow> 'm option"
  extractORBFeatures :: "'m \<Rightarrow> (Point list \<times> 'd) option"
  bfMatch :: "'d \<Rightarrow> 'd \<Rightarrow> DMatch list option"

definition matchFeatures :: "('m, 'd) Env \<Rightarrow> 'd \<Rightarrow> 'd \<Rightarrow> DMatch list option" where
  "matchFeatures env descriptors1 descriptors2 =
     (case bfMatch env descriptors1 descriptors2 of
        None \<Rightarrow> None
      | Some matchesArray \<Rightarrow> Some (filterMatches_impl (arith env) matchesArray))"

datatype alignError =
    OpenCVNotLoaded
  | NoSelectedAreas
  | ImageLoadFailed
  | FeatureExtractionFailed
  | MatcherFailed
  | NotEnoughMatches
  | NoRotation

record AlignmentResult =
  success :: bool
  result_transform :: Transform
  result_error :: "alignError option"

text \<open>The \<^verbatim>\<open>try\<close> block of \<^verbatim>\<open>alignImages\<close>: every \<^verbatim>\<open>throw\<close> is an \<^term>\<open>Inl\<close>, and the
  \<^verbatim>\<open>catch\<close> turns it into a failed result that carries the transform of the second image.
  \<^term>\<open>NoRotation\<close> stands for a rotation search without result: reading a key point threw.
  A search that does not end is filed there too, so that \<^verbatim>\<open>alignImages\<close> stays a total
  function; the search ends whenever the rounded sum advances the loop variable
  (\<open>rotationLoop_impl_returns\<close> below). Releasing the matrices at the end is not modelled.\<close>

definition alignImagesTry ::
  "('m, 'd) Env \<Rightarrow> ImageData \<Rightarrow> ImageData \<Rightarrow> alignError + RotationResult" where
  "alignImagesTry env image1 image2 =
     (if \<not> cvLoaded env then Inl OpenCVNotLoaded
      else if selectedArea image1 = None \<or> selectedArea image2 = None then Inl NoSelectedAreas
      else
        (case imageToMat env (url image1) of
           None \<Rightarrow> Inl ImageLoadFailed
         | Some mat1 \<Rightarrow>
        (case imageToMat env (url image2) of
           None \<Rightarrow> Inl ImageLoadFailed
         | Some mat2 \<Rightarrow>
        (case extractORBFeatures env mat1 of
           None \<Rightarrow> Inl FeatureExtractionFailed
         | Some (keypoints1, descriptors1) \<Rightarrow>
        (case extractORBFeatures env mat2 of
           None \<Rightarrow> Inl FeatureExtractionFailed
         | Some (keypoints2, descriptors2) \<Rightarrow>
        (case matchFeatures env descriptors1 descriptors2 of
           None \<Rightarrow> Inl MatcherFailed
         | Some matches \<Rightarrow>
             if length matches < 3 then Inl NotEnoughMatches
             else
               (case calculateOptimalRotation_impl (arith env) keypoints1 keypoints2 matches
                       (rotation (transform image2))
                       (map_option areaCenter (selectedArea image2)) of
                  None \<Rightarrow> Inl NoRotation
                | Some r \<Rightarrow> Inr r)))))))"

definition alignImages :: "('m, 'd) Env \<Rightarrow> ImageData \<Rightarrow> ImageData \<Rightarrow> AlignmentResult" where
  "alignImages env image1 image2 =
     (case alignImagesTry env image1 image2 of
        Inr r \<Rightarrow>
          \<lparr>success = True,
           result_transform =
             \<lparr>scale = scale (transform image2),
              rotation = res_rotation r,
              translateX = translateX (transform image2),
              translateY = res_translateY r\<rparr>,
           result_error = None\<rparr>
      | Inl e \<Rightarrow>
          \<lparr>success = False, result_transform = transform image2, result_error = Some e\<rparr>)"

section \<open>imageAlignment.ts: the image list\<close>

text \<open>
  The translation loop \<^verbatim>\<open>for (let i = 0; i < alignedImages.length - 1; i++)\<close>, which
  \<^verbatim>\<open>alignAllImages\<close> and \<^verbatim>\<open>alignImagesByAreaOnly\<close> both contain: \<^verbatim>\<open>continue\<close> goes on
  with the list as it is, otherwise image \<open>i + 1\<close> gets its new transform.
\<close>

definition hasNoArea :: "ImageData \<Rightarrow> bool" where
  "hasNoArea img = (selectedArea img = None)"

function translationLoop :: "nat \<Rightarrow> ImageData list \<Rightarrow> ImageData list" where
  "translationLoop i alignedImages =
     (if int i < int (length alignedImages) - 1 then
        (let currentImage = alignedImages ! i;
             nextImage = alignedImages ! (i + 1)
         in if hasNoArea currentImage \<or> hasNoArea nextImage
            then translationLoop (i + 1) alignedImages
            else translationLoop (i + 1)
                   (alignedImages[i + 1 := nextImage\<lparr>transform :=
                      calculateAlignImagesTransform
                        (width currentImage) (height currentImage) (transform currentImage)
                        (width nextImage) (height nextImage) (transform nextImage)
                        (selectedArea currentImage) (selectedArea nextImage)\<rparr>]))
      else alignedImages)"
  by pat_completeness auto
termination
  by (relation "measure (\<lambda>(i, alignedImages). length alignedImages - i)") auto

declare translationLoop.simps [simp del]

text \<open>The rotation loop of \<^verbatim>\<open>alignAllImages\<close> and \<^verbatim>\<open>alignImagesByRotationOnly\<close>: only
  a successful result is written, and only its rotation.\<close>

function rotationPass :: "('m, 'd) Env \<Rightarrow> nat \<Rightarrow> ImageData list \<Rightarrow> ImageData list" where
  "rotationPass env i alignedImages =
     (if int i < int (length alignedImages) - 1 then
        (let currentImage = alignedImages ! i;
             nextImage = alignedImages ! (i + 1)
         in if hasNoArea currentImage \<or> hasNoArea nextImage
            then rotationPass env (i + 1) alignedImages
            else
              (let alignmentResult = alignImages env currentImage nextImage
               in if success alignmentResult
                  then rotationPass env (i + 1)
                         (alignedImages[i + 1 := nextImage\<lparr>transform :=
                            \<lparr>scale = scale (transform nextImage),
                             rotation = rotation (result_transform alignmentResult),
                             translateX = translateX (transform nextImage),
                             translateY = translateY (transform nextImage)\<rparr>\<rparr>])
                  else rotationPass env (i + 1) alignedImages))
      else alignedImages)"
  by pat_completeness auto
termination
  by (relation "measure (\<lambda>(env, i, alignedImages). length alignedImages - i)") auto

declare rotationPass.simps [simp del]

text \<open>The first step of the translation pass: image \<open>0\<close> is centred when it has an area.\<close>

definition centerFirstImage :: "ImageData list \<Rightarrow> ImageData list" where
  "centerFirstImage alignedImages =
     (if selectedArea (alignedImages ! 0) \<noteq> None
      then alignedImages[0 := (alignedImages ! 0)\<lparr>transform :=
             calculateCenterImageTransform
               (width (alignedImages ! 0)) (height (alignedImages ! 0))
               (transform (alignedImages ! 0)) (selectedArea (alignedImages ! 0))\<rparr>]
      else alignedImages)"

definition alignAllImages :: "('m, 'd) Env \<Rightarrow> ImageData list \<Rightarrow> ImageData list" where
  "alignAllImages env images =
     (if length images < 2 then images
      else rotationPass env 0 (translationLoop 0 (centerFirstImage images)))"

definition alignImagesByAreaOnly :: "ImageData list \<Rightarrow> ImageData list" where
  "alignImagesByAreaOnly images =
     (if length images < 2 then images
      else translationLoop 0 (centerFirstImage images))"

definition alignImagesByRotationOnly :: "('m, 'd) Env \<Rightarrow> ImageData list \<Rightarrow> ImageData list" where
  "alignImagesByRotationOnly env images =
     (if length images < 2 then images
      else rotationPass env 0 images)"

section \<open>App.tsx: the handlers of the three buttons\<close>

text \<open>
  A handler reads the image list of the application state, shows one alert, and, when
  it gets that far, replaces the list by the aligned one. The result is the alert and
  the image list after the handler. The flag \<^verbatim>\<open>isAligning\<close>, the update counter and the
  two diagnostic calls on the OpenCV object are left out: none of them touches the list.
  With every exception caught inside \<^verbatim>\<open>alignImages\<close>, the \<^verbatim>\<open>catch\<close> of a handler is
  never entered.
\<close>

datatype alert =
    NeedTwoImages
  | NeedAllAreas
  | OpenCVMissing
  | AlignmentDone

definition handleAutoAlign :: "('m, 'd) Env \<Rightarrow> ImageData list \<Rightarrow> alert \<times> ImageData list" where
  "handleAutoAlign env images =
     (if length images < 2 then (NeedTwoImages, images)
      else
        let imagesWithoutArea = filter (\<lambda>img. selectedArea img = None) images
        in if length imagesWithoutArea > 0 then (NeedAllAreas, images)
           else if \<not> cvLoaded env then (OpenCVMissing, images)
           else (AlignmentDone, alignAllImages env images))"

definition handleAlignByArea :: "ImageData list \<Rightarrow> alert \<times> ImageData list" where
  "handleAlignByArea images =
     (if length images < 2 then (NeedTwoImages, images)
      else
        let imagesWithoutArea = filter (\<lambda>img. selectedArea img = None) images
        in if length imagesWithoutArea > 0 then (NeedAllAreas, images)
           else (AlignmentDone, alignImagesByAreaOnly images))"

definition handleAlignByRotation :: "('m, 'd) Env \<Rightarrow> ImageData list \<Rightarrow> alert \<times> ImageData list" where
  "handleAlignByRotation env images =
     (if length images < 2 then (NeedTwoImages, images)
      else
        let imagesWithoutArea = filter (\<lambda>img. selectedArea img = None) images
        in if length imagesWithoutArea > 0 then (NeedAllAreas, images)
           else if \<not> cvLoaded env then (OpenCVMissing, images)
           else (AlignmentDone, alignImagesByRotationOnly env images))"

section \<open>Notions used in the statements\<close>

text \<open>
  The definitions below are not code of the repository. They say, in the words of the
  specification, what the code is compared with.
\<close>

text \<open>Everything of an image but its rotation.\<close>

definition withoutRotation :: "ImageData \<Rightarrow> ImageData" where
  "withoutRotation img = img\<lparr>transform := (transform img)\<lparr>rotation := 0\<rparr>\<rparr>"




text \<open>
  Mean and population standard deviation of a list of distances, what a median is (at
  least half of the values are at most \<open>m\<close> and at least half are at least \<open>m\<close>), and
  the two stages of the filter for a given median.
\<close>

definition mean :: "real list \<Rightarrow> real" where
  "mean ds = sum_list ds / real (length ds)"

definition populationStd :: "real list \<Rightarrow> real" where
  "populationStd ds = sqrt (sum_list (map (\<lambda>d. (d - mean ds)\<^sup>2) ds) / real (length ds))"

definition isMedian :: "real \<Rightarrow> real list \<Rightarrow> bool" where
  "isMedian m ds \<longleftrightarrow>
     length ds \<le> 2 * length (filter (\<lambda>d. d \<le> m) ds)
   \<and> length ds \<le> 2 * length (filter (\<lambda>d. m \<le> d) ds)"


section \<open>Exact arithmetic\<close>

text \<open>Exact arithmetic: a result between the largest double and its negative is not
  rounded, and a result beyond the largest double is \<^verbatim>\<open>Infinity\<close>. The largest double lies
  between \<open>2\<^sup>1\<^sup>0\<^sup>2\<^sup>3\<close> and \<open>2\<^sup>1\<^sup>0\<^sup>2\<^sup>4\<close>.\<close>

lemma maxNumber_lower: "2 ^ 1023 \<le> maxNumber"
proof -
  have "(1::real) \<le> 2 - 1 / 2 ^ 52" by simp
  moreover have "(0::real) \<le> 2 ^ 1023" by (rule zero_le_power) simp
  ultimately have "1 * 2 ^ 1023 \<le> (2 - 1 / 2 ^ 52) * (2::real) ^ 1023" by (rule mult_right_mono)
  then show ?thesis by (simp only: maxNumber_def mult_1)
qed


lemma fl_within: "- maxNumber \<le> x \<Longrightarrow> x \<le> maxNumber \<Longrightarrow> fl exactArith x = Num x"
  by (simp add: fl_def exactArith_def)


lemma million_small: "1000000 \<le> maxNumber"
proof -
  have "(1000000::real) \<le> 2 ^ 20" by simp
  also have "(2::real) ^ 20 \<le> 2 ^ 1023" by (rule power_increasing) simp_all
  also note maxNumber_lower
  finally show ?thesis .
qed

lemma fl_exact: "\<bar>x\<bar> \<le> 1000000 \<Longrightarrow> fl exactArith x = Num x"
  using million_small by (intro fl_within) linarith+




section \<open>Translation from the selected areas\<close>

text \<open>
  Claim C1. With a selected area, \<^verbatim>\<open>calculateCenterImageTransform\<close> returns scale \<open>1\<close>, the
  rotation of the current transform, and as translation the negated offset of the centre
  of the area from the centre of the image; the centre of the area plus that translation
  is the centre of the image, \<open>(W / 2, H / 2)\<close>.
\<close>

theorem calculateCenterImageTransform_centers:
  "calculateCenterImageTransform W H cur (Some R) =
     \<lparr>scale = 1, rotation = rotation cur,
      translateX = - (pt_x (areaCenter R) - W / 2),
      translateY = - (pt_y (areaCenter R) - H / 2)\<rparr>
   \<and> pt_x (areaCenter R) + translateX (calculateCenterImageTransform W H cur (Some R)) = W / 2
   \<and> pt_y (areaCenter R) + translateY (calculateCenterImageTransform W H cur (Some R)) = H / 2"
  by (simp add: calculateCenterImageTransform_def areaCenter_def Let_def)

lemma calculateAlignImagesTransform_Some:
  "calculateAlignImagesTransform w1 h1 t1 w2 h2 t2 (Some a1) (Some a2) =
     \<lparr>scale = 1, rotation = rotation t2,
      translateX = (translateX t1 + (pt_x (areaCenter a1) - w1 / 2)) - (pt_x (areaCenter a2) - w2 / 2),
      translateY = (translateY t1 + (pt_y (areaCenter a1) - h1 / 2)) - (pt_y (areaCenter a2) - h2 / 2)\<rparr>"
  by (simp add: calculateAlignImagesTransform_def areaCenter_def Let_def)

lemma canvasPoint_unrotated:
  "rotation t = 0 \<Longrightarrow> scale t = 1 \<Longrightarrow>
   canvasPoint t w h p = \<lparr>pt_x = translateX t + (pt_x p - w / 2), pt_y = translateY t + (pt_y p - h / 2)\<rparr>"
  by (simp add: canvasPoint_def Let_def)

text \<open>
  Claim C2. With both areas selected, \<^verbatim>\<open>calculateAlignImagesTransform\<close> returns scale \<open>1\<close>,
  the rotation of the image being placed, and as translation the place of the reference
  area's centre (the reference translation plus the offset of that centre from the middle
  of the reference image) minus the offset of the own area's centre from the own middle.
  Applied along three images \<open>0 \<rightarrow> 1 \<rightarrow> 2\<close> without rotation, the centres of the three areas
  land on the same point of the canvas when image \<open>0\<close> has the scale \<open>1\<close>, the scale that
  every translation solver returns. (The function does not read the scale of the reference
  image; with another scale of image \<open>0\<close> the centres do not meet.)
\<close>

theorem calculateAlignImagesTransform_chain:
  "calculateAlignImagesTransform wr hr tr wc hc tc (Some ar) (Some ac) =
     \<lparr>scale = 1, rotation = rotation tc,
      translateX = (translateX tr + (pt_x (areaCenter ar) - wr / 2)) - (pt_x (areaCenter ac) - wc / 2),
      translateY = (translateY tr + (pt_y (areaCenter ar) - hr / 2)) - (pt_y (areaCenter ac) - hc / 2)\<rparr>
   \<and> (rotation t0 = 0 \<and> scale t0 = 1 \<and> rotation t1 = 0 \<and> rotation t2 = 0
        \<and> T1 = calculateAlignImagesTransform w0 h0 t0 w1 h1 t1 (Some a0) (Some a1)
        \<and> T2 = calculateAlignImagesTransform w1 h1 T1 w2 h2 t2 (Some a1) (Some a2)
      \<longrightarrow> canvasPoint T1 w1 h1 (areaCenter a1) = canvasPoint t0 w0 h0 (areaCenter a0)
        \<and> canvasPoint T2 w2 h2 (areaCenter a2) = canvasPoint t0 w0 h0 (areaCenter a0))"
  by (simp add: calculateAlignImagesTransform_Some canvasPoint_unrotated)

theorem calculateAlignImagesTransform_chain_witness:
  "calculateAlignImagesTransform 1000 800
       \<lparr>scale = 1, rotation = 0, translateX = 375, translateY = 275\<rparr> 1000 800
       \<lparr>scale = 1, rotation = 0, translateX = 0, translateY = 0\<rparr>
       (Some \<lparr>area_x = 100, area_y = 100, area_width = 50, area_height = 50\<rparr>)
       (Some \<lparr>area_x = 120, area_y = 90, area_width = 50, area_height = 50\<rparr>)
     = \<lparr>scale = 1, rotation = 0, translateX = 355, translateY = 285\<rparr>
   \<and> calculateAlignImagesTransform 1000 800
       \<lparr>scale = 1, rotation = 0, translateX = 355, translateY = 285\<rparr> 1000 800
       \<lparr>scale = 1, rotation = 0, translateX = 0, translateY = 0\<rparr>
       (Some \<lparr>area_x = 120, area_y = 90, area_width = 50, area_height = 50\<rparr>)
       (Some \<lparr>area_x = 80, area_y = 110, area_width = 50, area_height = 50\<rparr>)
     = \<lparr>scale = 1, rotation = 0, translateX = 395, translateY = 265\<rparr>
   \<and> canvasPoint \<lparr>scale = 1, rotation = 0, translateX = 355, translateY = 285\<rparr> 1000 800
       (areaCenter \<lparr>area_x = 120, area_y = 90, area_width = 50, area_height = 50\<rparr>)
     = canvasPoint \<lparr>scale = 1, rotation = 0, translateX = 375, translateY = 275\<rparr> 1000 800
         (areaCenter \<lparr>area_x = 100, area_y = 100, area_width = 50, area_height = 50\<rparr>)
   \<and> canvasPoint \<lparr>scale = 1, rotation = 0, translateX = 395, translateY = 265\<rparr> 1000 800
       (areaCenter \<lparr>area_x = 80, area_y = 110, area_width = 50, area_height = 50\<rparr>)
     = canvasPoint \<lparr>scale = 1, rotation = 0, translateX = 375, translateY = 275\<rparr> 1000 800
         (areaCenter \<lparr>area_x = 100, area_y = 100, area_width = 50, area_height = 50\<rparr>)"
proof -
  let ?first = "\<lparr>scale = 1, rotation = 0, translateX = 375, translateY = 275\<rparr>"
  let ?unit = "\<lparr>scale = 1, rotation = 0, translateX = 0, translateY = 0\<rparr>"
  let ?second = "\<lparr>scale = 1, rotation = 0, translateX = 355, translateY = 285\<rparr>"
  let ?third = "\<lparr>scale = 1, rotation = 0, translateX = 395, translateY = 265\<rparr>"
  let ?areaA = "\<lparr>area_x = 100, area_y = 100, area_width = 50, area_height = 50\<rparr>"
  let ?areaB = "\<lparr>area_x = 120, area_y = 90, area_width = 50, area_height = 50\<rparr>"
  let ?areaC = "\<lparr>area_x = 80, area_y = 110, area_width = 50, area_height = 50\<rparr>"
  have second: "calculateAlignImagesTransform 1000 800 ?first 1000 800 ?unit (Some ?areaA) (Some ?areaB)
      = ?second"
    by (simp add: calculateAlignImagesTransform_def)
  have third: "calculateAlignImagesTransform 1000 800 ?second 1000 800 ?unit (Some ?areaB) (Some ?areaC)
      = ?third"
    by (simp add: calculateAlignImagesTransform_def)
  have hyps: "rotation ?first = 0 \<and> scale ?first = 1 \<and> rotation ?unit = 0 \<and> rotation ?unit = 0
      \<and> ?second = calculateAlignImagesTransform 1000 800 ?first 1000 800 ?unit (Some ?areaA) (Some ?areaB)
      \<and> ?third = calculateAlignImagesTransform 1000 800 ?second 1000 800 ?unit (Some ?areaB) (Some ?areaC)"
    using second third by simp
  note chain = calculateAlignImagesTransform_chain[where ?t0.0 = ?first and ?t1.0 = ?unit
      and ?t2.0 = ?unit and ?T1.0 = ?second and ?T2.0 = ?third
      and ?w0.0 = 1000 and ?h0.0 = 800 and ?w1.0 = 1000 and ?h1.0 = 800
      and ?w2.0 = 1000 and ?h2.0 = 800
      and ?a0.0 = ?areaA and ?a1.0 = ?areaB and ?a2.0 = ?areaC,
      THEN conjunct2, THEN mp, OF hyps]
  show ?thesis using second third chain by (intro conjI) simp_all
qed

text \<open>Image \<open>0\<close> at scale \<open>2\<close>: the renderer draws the centre of its area at \<open>(-750, -550)\<close>
  from the middle of the canvas, and the centre of the area of image \<open>1\<close>, placed by
  \<^verbatim>\<open>calculateAlignImagesTransform\<close>, at \<open>(-375, -275)\<close>.\<close>

theorem calculateAlignImagesTransform_scale_counterexample:
  "canvasPoint
     (calculateAlignImagesTransform 1000 800
        \<lparr>scale = 2, rotation = 0, translateX = 0, translateY = 0\<rparr> 1000 800
        \<lparr>scale = 1, rotation = 0, translateX = 0, translateY = 0\<rparr>
        (Some \<lparr>area_x = 100, area_y = 100, area_width = 50, area_height = 50\<rparr>)
        (Some \<lparr>area_x = 120, area_y = 90, area_width = 50, area_height = 50\<rparr>))
     1000 800 (areaCenter \<lparr>area_x = 120, area_y = 90, area_width = 50, area_height = 50\<rparr>)
   = \<lparr>pt_x = - 375, pt_y = - 275\<rparr>
   \<and> canvasPoint \<lparr>scale = 2, rotation = 0, translateX = 0, translateY = 0\<rparr> 1000 800
       (areaCenter \<lparr>area_x = 100, area_y = 100, area_width = 50, area_height = 50\<rparr>)
   = \<lparr>pt_x = - 750, pt_y = - 550\<rparr>"
  by (simp add: calculateAlignImagesTransform_Some canvasPoint_def areaCenter_def Let_def)

section \<open>Composition of transforms\<close>


section \<open>The correspondence filter\<close>

lemma foldl_plus_sum_list:
  "foldl (\<lambda>total x. total + g x) s xs = s + sum_list (map g xs)" for s :: real
  by (induction xs arbitrary: s) (simp_all add: add.assoc)

lemma meanDistance_mean: "meanDistance ds = mean ds"
  using foldl_plus_sum_list[of "\<lambda>d. d" 0 ds] by (simp add: meanDistance_def mean_def)

lemma stdDistance_populationStd: "stdDistance ds = populationStd ds"
  using foldl_plus_sum_list[of "\<lambda>d. (d - mean ds)\<^sup>2" 0 ds]
  by (simp add: stdDistance_def populationStd_def meanDistance_mean)

lemma removeOutliers_spec:
  "removeOutliers kept =
     filter (\<lambda>c. \<not> (mean (map distance kept) + 2 * populationStd (map distance kept) \<le> distance c)) kept"
  by (simp add: removeOutliers_def Let_def meanDistance_mean stdDistance_populationStd not_le)

lemma sorted_nth_isMedian:
  assumes "sorted xs" and "xs \<noteq> []"
  shows "isMedian (xs ! (length xs div 2)) xs"
proof -
  let ?n = "length xs"
  let ?k = "?n div 2"
  let ?m = "xs ! ?k"
  have k: "?k < ?n" using assms(2) by simp
  have low: "\<forall>x \<in> set (take (Suc ?k) xs). x \<le> ?m"
  proof
    fix x assume "x \<in> set (take (Suc ?k) xs)"
    then obtain i where i: "i < Suc ?k" "i < ?n" "x = xs ! i"
      by (auto simp: in_set_conv_nth)
    then have "xs ! i \<le> xs ! ?k" using assms(1) k by (intro sorted_nth_mono) auto
    with i show "x \<le> ?m" by simp
  qed
  have high: "\<forall>x \<in> set (drop ?k xs). ?m \<le> x"
  proof
    fix x assume "x \<in> set (drop ?k xs)"
    then obtain i where i: "i < ?n - ?k" "x = xs ! (?k + i)"
      by (auto simp: in_set_conv_nth)
    then have "xs ! ?k \<le> xs ! (?k + i)" using assms(1) by (intro sorted_nth_mono) auto
    with i show "?m \<le> x" by simp
  qed
  have "length (filter (\<lambda>d. d \<le> ?m) xs) =
          length (filter (\<lambda>d. d \<le> ?m) (take (Suc ?k) xs)) + length (filter (\<lambda>d. d \<le> ?m) (drop (Suc ?k) xs))"
    by (metis append_take_drop_id filter_append length_append)
  moreover have "filter (\<lambda>d. d \<le> ?m) (take (Suc ?k) xs) = take (Suc ?k) xs"
    using low by (simp add: filter_id_conv)
  ultimately have a: "Suc ?k \<le> length (filter (\<lambda>d. d \<le> ?m) xs)"
    using k by simp
  have "length (filter (\<lambda>d. ?m \<le> d) xs) =
          length (filter (\<lambda>d. ?m \<le> d) (take ?k xs)) + length (filter (\<lambda>d. ?m \<le> d) (drop ?k xs))"
    by (metis append_take_drop_id filter_append length_append)
  moreover have "filter (\<lambda>d. ?m \<le> d) (drop ?k xs) = drop ?k xs"
    using high by (simp add: filter_id_conv)
  ultimately have "length (filter (\<lambda>d. ?m \<le> d) xs) =
          length (filter (\<lambda>d. ?m \<le> d) (take ?k xs)) + length (drop ?k xs)"
    by (simp only:)
  then have b: "?n - ?k \<le> length (filter (\<lambda>d. ?m \<le> d) xs)"
    by (simp only: length_drop le_add2)
  from a b show ?thesis unfolding isMedian_def by linarith
qed

lemma isMedian_sort: "isMedian m (sort ds) \<longleftrightarrow> isMedian m ds"
  by (simp add: isMedian_def filter_sort)

lemma medianDistance_isMedian:
  assumes "matchesArray \<noteq> []"
  shows "isMedian (medianDistance matchesArray) (map distance matchesArray)"
    and "medianDistance matchesArray \<in> set (map distance matchesArray)"
proof -
  let ?xs = "sort (map distance matchesArray)"
  have ne: "?xs \<noteq> []" using assms by (metis length_0_conv length_map length_sort)
  have "isMedian (?xs ! (length ?xs div 2)) ?xs"
    using sorted_nth_isMedian[OF sorted_sort ne] .
  then show "isMedian (medianDistance matchesArray) (map distance matchesArray)"
    by (simp add: medianDistance_def Let_def isMedian_sort)
  have "length ?xs div 2 < length ?xs" using assms by simp
  then have "?xs ! (length ?xs div 2) \<in> set ?xs" by (rule nth_mem)
  then show "medianDistance matchesArray \<in> set (map distance matchesArray)"
    by (simp add: medianDistance_def Let_def)
qed

lemma sqrt_quarter: "sqrt (1 / 4) = 1 / 2"
  by (simp add: real_sqrt_divide)

lemma removeOutliers_length: "length (removeOutliers ms) \<le> length ms"
  by (simp add: removeOutliers_def Let_def)

lemma mean_constant:
  assumes "ds \<noteq> []" and "\<forall>x \<in> set ds. x = d"
  shows "mean ds = d"
proof -
  have "sum_list ds = real (length ds) * d"
    using assms(2) by (induction ds) (simp_all add: algebra_simps)
  then show ?thesis using assms(1) by (simp add: mean_def)
qed

lemma removeOutliers_constant:
  assumes "\<forall>m \<in> set ms. distance m = d"
  shows "removeOutliers ms = []"
proof (cases "ms = []")
  case True
  then show ?thesis by (simp add: removeOutliers_def)
next
  case False
  let ?ds = "map distance ms"
  have all: "\<forall>x \<in> set ?ds. x = d" using assms by auto
  have mu: "mean ?ds = d" using False all by (intro mean_constant) auto
  have "sum_list (map (\<lambda>x. (x - d)\<^sup>2) ?ds) = 0"
    using all by (induction ms) simp_all
  then have sd: "populationStd ?ds = 0" by (simp add: populationStd_def mu)
  show ?thesis using assms by (simp add: removeOutliers_spec mu sd)
qed

text \<open>
  Claim C5, as the code has it. The result of the filter is never longer than its input;
  and for a non-empty input in which all distances are the same, the filter returns no
  correspondence at all: no distance is below \<open>0.8\<close> times itself unless it is negative,
  and with no spread the outlier bound is the common distance itself.
\<close>

theorem filterMatches_shrinks:
  "length (filterMatches matchesArray) \<le> length matchesArray
   \<and> (matchesArray \<noteq> [] \<and> (\<forall>m \<in> set matchesArray. distance m = d)
        \<longrightarrow> filterMatches matchesArray = [])"
proof (intro conjI impI)
  let ?kept = "filter (\<lambda>m. distance m < distanceThreshold matchesArray) matchesArray"
  have "length (removeOutliers ?kept) \<le> length ?kept" by (rule removeOutliers_length)
  also have "\<dots> \<le> length matchesArray" by simp
  finally show "length (filterMatches matchesArray) \<le> length matchesArray"
    by (simp add: filterMatches_def Let_def)
next
  assume a: "matchesArray \<noteq> [] \<and> (\<forall>m \<in> set matchesArray. distance m = d)"
  let ?kept = "filter (\<lambda>m. distance m < distanceThreshold matchesArray) matchesArray"
  have "\<forall>m \<in> set ?kept. distance m = d" using a by simp
  then have "removeOutliers ?kept = []" by (rule removeOutliers_constant)
  then show "filterMatches matchesArray = []"
    by (simp add: filterMatches_def Let_def)
qed

theorem filterMatches_shrinks_witness:
  "[\<lparr>queryIdx = 4, trainIdx = 7, distance = 32\<rparr>, \<lparr>queryIdx = 5, trainIdx = 9, distance = 32\<rparr>] \<noteq> []
   \<and> filterMatches
       [\<lparr>queryIdx = 4, trainIdx = 7, distance = 32\<rparr>, \<lparr>queryIdx = 5, trainIdx = 9, distance = 32\<rparr>] = []"
proof -
  let ?ms = "[\<lparr>queryIdx = 4, trainIdx = 7, distance = 32\<rparr>, \<lparr>queryIdx = 5, trainIdx = 9, distance = 32\<rparr>]"
  have ne: "?ms \<noteq> []" by simp
  have same: "\<forall>m \<in> set ?ms. distance m = 32" by simp
  from filterMatches_shrinks[of ?ms 32] ne same show ?thesis by blast
qed

text \<open>Claim C5 as stated fails: three correspondences of distance \<open>10\<close>, none retained.\<close>

theorem filterMatches_identical_counterexample:
  "filterMatches
     [\<lparr>queryIdx = 0, trainIdx = 0, distance = 10\<rparr>,
      \<lparr>queryIdx = 1, trainIdx = 1, distance = 10\<rparr>,
      \<lparr>queryIdx = 2, trainIdx = 2, distance = 10\<rparr>] = []"
  by (simp add: filterMatches_def distanceThreshold_def medianDistance_def Let_def)

subsection \<open>The filter of imageAlignment.ts\<close>






text \<open>The filter never returns more than it was given, whatever the rounding.\<close>

lemma impl_filter_length: "length (filterMatches_impl ar matchesArray) \<le> length matchesArray"
proof -
  let ?kept = "filter (\<lambda>m. nlt (Num (distance m)) (distanceThreshold_impl ar matchesArray)) matchesArray"
  have "length (filter (\<lambda>m. nlt (Num (distance m))
                  (outlierThreshold_impl ar (map distance ?kept))) ?kept) \<le> length ?kept"
    by (rule length_filter_le)
  moreover have "length ?kept \<le> length matchesArray" by (rule length_filter_le)
  ultimately show ?thesis by (simp add: filterMatches_impl_def Let_def)
qed

text \<open>
  On a non-empty input with one common non-negative distance it returns nothing, already
  after the first stage, for every rounding that is monotone and leaves \<open>1\<close> and the
  distance, which are doubles, as they are: the rounded \<^verbatim>\<open>0.8\<close> is at most \<open>1\<close>, so the
  rounded product is at most the distance.
\<close>

lemma impl_filter_identical:
  assumes "matchesArray \<noteq> []" and "\<forall>m \<in> set matchesArray. distance m = d" and "0 \<le> d"
    and mono: "mono (rnd ar)" and one: "rnd ar 1 = 1" and exact: "rnd ar d = d"
  shows "filterMatches_impl ar matchesArray = []"
proof -
  have "medianDistance matchesArray \<in> set (map distance matchesArray)"
    using medianDistance_isMedian(2)[OF assms(1)] .
  then have med: "medianDistance matchesArray = d" using assms(2) by auto
  have r: "rnd ar (8 / 10) \<le> 1" using monoD[OF mono, of "8 / 10" 1] one by simp
  have max50: "50 \<le> maxNumber" using million_small by linarith
  have "d * rnd ar (8 / 10) \<le> d * 1" using r assms(3) by (intro mult_left_mono)
  then have p: "rnd ar (d * rnd ar (8 / 10)) \<le> d"
    using monoD[OF mono, of "d * rnd ar (8 / 10)" d] exact by simp
  let ?t = "nmul ar (Num d) (fl ar (8 / 10))"
  have t: "?t = NaN \<or> ?t = NegInf \<or> (\<exists>v. ?t = Num v \<and> v \<le> d) \<or> (?t = PosInf \<and> 50 \<le> d)"
  proof (cases "rnd ar (8 / 10) < - maxNumber")
    case True
    then have "fl ar (8 / 10) = NegInf" using r max50 by (simp add: fl_def)
    then have "?t = signedInf (nsign (Num d) * nsign NegInf)" by simp
    then show ?thesis using assms(3) by (cases "d = 0") (simp_all add: signedInf_def)
  next
    case False
    then have "fl ar (8 / 10) = Num (rnd ar (8 / 10))" using r max50 by (simp add: fl_def)
    then have prod: "?t = fl ar (d * rnd ar (8 / 10))" by simp
    show ?thesis
    proof (cases "maxNumber < rnd ar (d * rnd ar (8 / 10))")
      case True
      then have "fl ar (d * rnd ar (8 / 10)) = PosInf" by (simp add: fl_def)
      then have "?t = PosInf" by (simp only: prod)
      moreover have "50 \<le> d" using True p max50 by linarith
      ultimately show ?thesis by simp
    next
      case notbig: False
      show ?thesis
      proof (cases "rnd ar (d * rnd ar (8 / 10)) < - maxNumber")
        case True
        then have "fl ar (d * rnd ar (8 / 10)) = NegInf" using notbig by (simp add: fl_def)
        then have "?t = NegInf" by (simp only: prod)
        then show ?thesis by simp
      next
        case False
        then have "fl ar (d * rnd ar (8 / 10)) = Num (rnd ar (d * rnd ar (8 / 10)))"
          using notbig by (simp add: fl_def)
        then have "?t = Num (rnd ar (d * rnd ar (8 / 10)))" by (simp only: prod)
        then show ?thesis using p by simp
      qed
    qed
  qed
  have "\<not> nlt (Num d) (nmin (Num 50) ?t)"
    using t by (auto simp: nmin_def)
  then have "\<not> nlt (Num d) (distanceThreshold_impl ar matchesArray)"
    by (simp add: distanceThreshold_impl_def med)
  then have "filter (\<lambda>m. nlt (Num (distance m)) (distanceThreshold_impl ar matchesArray)) matchesArray = []"
    using assms(2) by (auto simp: filter_empty_conv)
  then show ?thesis by (simp add: filterMatches_impl_def Let_def)
qed

section \<open>The rotation search\<close>















lemma matchedPoints_in_range:
  "\<forall>m \<in> set matches. queryIdx m < length keypoints1 \<and> trainIdx m < length keypoints2 \<Longrightarrow>
   matchedPoints keypoints1 keypoints2 matches =
     Some (map (\<lambda>m. keypoints1 ! queryIdx m) matches, map (\<lambda>m. keypoints2 ! trainIdx m) matches)"
  by (induction matches) (simp_all add: getKeyPoint_def)

















subsection \<open>The search of imageAlignment.ts\<close>

text \<open>
  The loop of \<^verbatim>\<open>imageAlignment.ts\<close> ends when the rounded sum of a loop variable between
  \<open>-30\<close> and \<open>30\<close> and the rounded \<^verbatim>\<open>0.1\<close> exceeds the loop variable by at least half a
  step, as it does in doubles; exact arithmetic is an instance.
\<close>

lemma rotationLoop_impl_returns:
  assumes adv: "\<And>a. - 30 \<le> a \<Longrightarrow> a \<le> 30 \<Longrightarrow>
                  nadd ar (Num a) (fl ar (1 / 10)) = PosInf
                  \<or> (\<exists>b. nadd ar (Num a) (fl ar (1 / 10)) = Num b \<and> a + 1 / 20 \<le> b)"
    and "- 30 \<le> a"
  shows "\<exists>r. rotationLoop_impl ar points1 points2 center (Num a) best m = Some r"
  using assms(2)
proof (induction "nat \<lceil>(31 - a) * 20\<rceil>" arbitrary: a best m rule: less_induct)
  case less
  show ?case
  proof (cases "a \<le> 30")
    case False
    then show ?thesis by (subst rotationLoop_impl.simps) simp
  next
    case True
    from adv[OF less.prems True] show ?thesis
    proof
      assume inf: "nadd ar (Num a) (fl ar (1 / 10)) = PosInf"
      have stop: "rotationLoop_impl ar points1 points2 center PosInf b n = Some b" for b n
        by (subst rotationLoop_impl.simps) simp
      show ?thesis
        by (subst rotationLoop_impl.simps) (simp add: True inf stop)
    next
      assume "\<exists>b. nadd ar (Num a) (fl ar (1 / 10)) = Num b \<and> a + 1 / 20 \<le> b"
      then obtain b where b: "nadd ar (Num a) (fl ar (1 / 10)) = Num b" "a + 1 / 20 \<le> b"
        by blast
      have "(31 - b) * 20 \<le> (31 - a) * 20 - 1" using b(2) by simp
      moreover have "0 < (31 - a) * 20" using True by simp
      ultimately have "nat \<lceil>(31 - b) * 20\<rceil> < nat \<lceil>(31 - a) * 20\<rceil>" by linarith
      moreover have "- 30 \<le> b" using b(2) less.prems by simp
      ultimately have "\<exists>r. rotationLoop_impl ar points1 points2 center (Num b) best' m' = Some r"
        for best' m'
        by (rule less.hyps)
      then show ?thesis
        by (subst rotationLoop_impl.simps) (simp add: True b(1))
    qed
  qed
qed

lemma exactArith_advances:
  assumes "- 30 \<le> a" and "a \<le> 30"
  shows "nadd exactArith (Num a) (fl exactArith (1 / 10)) = PosInf
         \<or> (\<exists>b. nadd exactArith (Num a) (fl exactArith (1 / 10)) = Num b \<and> a + 1 / 20 \<le> b)"
proof -
  have "\<bar>a + 1 / 10\<bar> \<le> 1000000" using assms by simp
  then have "nadd exactArith (Num a) (fl exactArith (1 / 10)) = Num (a + 1 / 10)"
    by (simp add: fl_exact)
  then show ?thesis by simp
qed

lemma calculateOptimalRotation_impl_returns:
  assumes "\<forall>m \<in> set matches. queryIdx m < length keypoints1 \<and> trainIdx m < length keypoints2"
    and "\<And>a. - 30 \<le> a \<Longrightarrow> a \<le> 30 \<Longrightarrow>
            nadd ar (Num a) (fl ar (1 / 10)) = PosInf
            \<or> (\<exists>b. nadd ar (Num a) (fl ar (1 / 10)) = Num b \<and> a + 1 / 20 \<le> b)"
  shows "\<exists>r. calculateOptimalRotation_impl ar keypoints1 keypoints2 matches currentRotation
               selectedAreaCenter = Some r"
proof (cases "length matches < 3")
  case True
  then show ?thesis by (simp add: calculateOptimalRotation_impl_def)
next
  case False
  let ?p1 = "map (\<lambda>m. keypoints1 ! queryIdx m) matches"
  let ?p2 = "map (\<lambda>m. keypoints2 ! trainIdx m) matches"
  let ?c = "case selectedAreaCenter of Some c \<Rightarrow> c | None \<Rightarrow> \<lparr>pt_x = 0, pt_y = 0\<rparr>"
  obtain r where "rotationLoop_impl ar ?p1 ?p2 ?c (Num (- 30)) currentRotation PosInf = Some r"
    using rotationLoop_impl_returns[of ar "- 30" ?p1 ?p2 ?c currentRotation PosInf] assms(2)
    by auto
  then show ?thesis
    using False matchedPoints_in_range[OF assms(1)]
    by (simp add: calculateOptimalRotation_impl_def)
qed

section \<open>The passes over the image list\<close>

lemma translationLoop_length: "length (translationLoop i imgs) = length imgs"
proof (induction i imgs rule: translationLoop.induct)
  case (1 i imgs)
  show ?case
    using "1.IH" by (subst translationLoop.simps) (simp add: Let_def)
qed

lemma rotationPass_length: "length (rotationPass env i imgs) = length imgs"
proof (induction env i imgs rule: rotationPass.induct)
  case (1 env i imgs)
  show ?case
    using "1.IH" by (subst rotationPass.simps) (simp add: Let_def)
qed

lemma translationLoop_done:
  "\<not> int i < int (length imgs) - 1 \<Longrightarrow> translationLoop i imgs = imgs"
  using translationLoop.simps[of i imgs] by simp

lemma rotationPass_done:
  "\<not> int i < int (length imgs) - 1 \<Longrightarrow> rotationPass env i imgs = imgs"
  using rotationPass.simps[of env i imgs] by simp

lemma translationLoop_skip:
  assumes "hasNoArea (imgs ! i) \<or> hasNoArea (imgs ! (i + 1))"
  shows "translationLoop i imgs = translationLoop (i + 1) imgs"
proof (cases "int i < int (length imgs) - 1")
  case True
  then show ?thesis using assms translationLoop.simps[of i imgs] by (simp add: Let_def)
next
  case False
  then show ?thesis by (simp add: translationLoop_done)
qed

lemma translationLoop_align:
  assumes "int i < int (length imgs) - 1"
    and "\<not> hasNoArea (imgs ! i)" and "\<not> hasNoArea (imgs ! (i + 1))"
  shows "translationLoop i imgs =
     translationLoop (i + 1)
       (imgs[i + 1 := (imgs ! (i + 1))\<lparr>transform :=
          calculateAlignImagesTransform
            (width (imgs ! i)) (height (imgs ! i)) (transform (imgs ! i))
            (width (imgs ! (i + 1))) (height (imgs ! (i + 1))) (transform (imgs ! (i + 1)))
            (selectedArea (imgs ! i)) (selectedArea (imgs ! (i + 1)))\<rparr>])"
  using assms translationLoop.simps[of i imgs] by (simp add: Let_def)

lemma rotationPass_skip:
  assumes "hasNoArea (imgs ! i) \<or> hasNoArea (imgs ! (i + 1))"
  shows "rotationPass env i imgs = rotationPass env (i + 1) imgs"
proof (cases "int i < int (length imgs) - 1")
  case True
  then show ?thesis using assms rotationPass.simps[of env i imgs] by (simp add: Let_def)
next
  case False
  then show ?thesis by (simp add: rotationPass_done)
qed

lemma rotationPass_failure:
  assumes "\<not> success (alignImages env (imgs ! i) (imgs ! (i + 1)))"
  shows "rotationPass env i imgs = rotationPass env (i + 1) imgs"
proof (cases "int i < int (length imgs) - 1")
  case True
  then show ?thesis using assms rotationPass.simps[of env i imgs] by (simp add: Let_def)
next
  case False
  then show ?thesis by (simp add: rotationPass_done)
qed

lemma rotationPass_success:
  assumes "int i < int (length imgs) - 1"
    and "\<not> hasNoArea (imgs ! i)" and "\<not> hasNoArea (imgs ! (i + 1))"
    and "success (alignImages env (imgs ! i) (imgs ! (i + 1)))"
  shows "rotationPass env i imgs =
     rotationPass env (i + 1)
       (imgs[i + 1 := (imgs ! (i + 1))\<lparr>transform :=
          \<lparr>scale = scale (transform (imgs ! (i + 1))),
           rotation = rotation (result_transform (alignImages env (imgs ! i) (imgs ! (i + 1)))),
           translateX = translateX (transform (imgs ! (i + 1))),
           translateY = translateY (transform (imgs ! (i + 1)))\<rparr>\<rparr>])"
  using assms rotationPass.simps[of env i imgs] by (simp add: Let_def)

lemma translationLoop_nth_same:
  "k < length imgs \<Longrightarrow> k \<le> i \<or> hasNoArea (imgs ! (k - 1)) \<or> hasNoArea (imgs ! k) \<Longrightarrow>
   translationLoop i imgs ! k = imgs ! k"
proof (induction i imgs rule: translationLoop.induct)
  case (1 i imgs)
  show ?case
  proof (cases "int i < int (length imgs) - 1")
    case False
    then show ?thesis by (simp add: translationLoop_done)
  next
    case inrange: True
    show ?thesis
    proof (cases "hasNoArea (imgs ! i) \<or> hasNoArea (imgs ! (i + 1))")
      case True
      have "k \<le> i + 1 \<or> hasNoArea (imgs ! (k - 1)) \<or> hasNoArea (imgs ! k)"
        using "1.prems"(2) by auto
      then have "translationLoop (i + 1) imgs ! k = imgs ! k"
        using "1.IH"(1)[OF inrange refl refl True "1.prems"(1)] by simp
      then show ?thesis by (simp add: translationLoop_skip[OF True])
    next
      case False
      let ?new = "(imgs ! (i + 1))\<lparr>transform :=
          calculateAlignImagesTransform
            (width (imgs ! i)) (height (imgs ! i)) (transform (imgs ! i))
            (width (imgs ! (i + 1))) (height (imgs ! (i + 1))) (transform (imgs ! (i + 1)))
            (selectedArea (imgs ! i)) (selectedArea (imgs ! (i + 1)))\<rparr>"
      let ?imgs = "imgs[i + 1 := ?new]"
      have step: "translationLoop i imgs = translationLoop (i + 1) ?imgs"
        using translationLoop_align[OF inrange] False by simp
      have kne: "k \<noteq> i + 1" using "1.prems"(2) False by auto
      have area: "hasNoArea (?imgs ! j) = hasNoArea (imgs ! j)" for j
        using inrange by (cases "j = i + 1") (simp_all add: hasNoArea_def)
      have len: "k < length ?imgs" using "1.prems"(1) by simp
      have "k \<le> i + 1 \<or> hasNoArea (?imgs ! (k - 1)) \<or> hasNoArea (?imgs ! k)"
        using "1.prems"(2) unfolding area by auto
      then have "translationLoop (i + 1) ?imgs ! k = ?imgs ! k"
        using "1.IH"(2)[OF inrange refl refl False len] by simp
      then show ?thesis using step kne by simp
    qed
  qed
qed

lemma rotationPass_nth_same:
  "k < length imgs \<Longrightarrow> k \<le> i \<or> hasNoArea (imgs ! (k - 1)) \<or> hasNoArea (imgs ! k) \<Longrightarrow>
   rotationPass env i imgs ! k = imgs ! k"
proof (induction env i imgs rule: rotationPass.induct)
  case (1 env i imgs)
  show ?case
  proof (cases "int i < int (length imgs) - 1")
    case False
    then show ?thesis by (simp add: rotationPass_done)
  next
    case inrange: True
    let ?res = "alignImages env (imgs ! i) (imgs ! (i + 1))"
    show ?thesis
    proof (cases "hasNoArea (imgs ! i) \<or> hasNoArea (imgs ! (i + 1))")
      case True
      have "k \<le> i + 1 \<or> hasNoArea (imgs ! (k - 1)) \<or> hasNoArea (imgs ! k)"
        using "1.prems"(2) by auto
      then have "rotationPass env (i + 1) imgs ! k = imgs ! k"
        using "1.IH"(1)[OF inrange refl refl True "1.prems"(1)] by simp
      then show ?thesis by (simp add: rotationPass_skip[OF True])
    next
      case areas: False
      show ?thesis
      proof (cases "success ?res")
        case False
        have "k \<le> i + 1 \<or> hasNoArea (imgs ! (k - 1)) \<or> hasNoArea (imgs ! k)"
          using "1.prems"(2) by auto
        then have "rotationPass env (i + 1) imgs ! k = imgs ! k"
          using "1.IH"(3)[OF inrange refl refl areas refl False "1.prems"(1)] by simp
        then show ?thesis by (simp add: rotationPass_failure[OF False])
      next
        case True
        let ?new = "(imgs ! (i + 1))\<lparr>transform :=
          \<lparr>scale = scale (transform (imgs ! (i + 1))),
           rotation = rotation (result_transform ?res),
           translateX = translateX (transform (imgs ! (i + 1))),
           translateY = translateY (transform (imgs ! (i + 1)))\<rparr>\<rparr>"
        let ?imgs = "imgs[i + 1 := ?new]"
        have step: "rotationPass env i imgs = rotationPass env (i + 1) ?imgs"
          using rotationPass_success[OF inrange _ _ True] areas by simp
        have kne: "k \<noteq> i + 1" using "1.prems"(2) areas by auto
        have area: "hasNoArea (?imgs ! j) = hasNoArea (imgs ! j)" for j
          using inrange by (cases "j = i + 1") (simp_all add: hasNoArea_def)
        have len: "k < length ?imgs" using "1.prems"(1) by simp
        have "k \<le> i + 1 \<or> hasNoArea (?imgs ! (k - 1)) \<or> hasNoArea (?imgs ! k)"
          using "1.prems"(2) unfolding area by auto
        then have "rotationPass env (i + 1) ?imgs ! k = ?imgs ! k"
          using "1.IH"(2)[OF inrange refl refl areas refl True len] by simp
        then show ?thesis using step kne by simp
      qed
    qed
  qed
qed

lemma translationLoop_nth_aligned:
  "i \<le> k \<Longrightarrow> k + 1 < length imgs \<Longrightarrow> \<not> hasNoArea (imgs ! k) \<Longrightarrow> \<not> hasNoArea (imgs ! (k + 1)) \<Longrightarrow>
   translationLoop i imgs ! (k + 1) =
     (imgs ! (k + 1))\<lparr>transform :=
        calculateAlignImagesTransform
          (width (imgs ! k)) (height (imgs ! k)) (transform (translationLoop i imgs ! k))
          (width (imgs ! (k + 1))) (height (imgs ! (k + 1))) (transform (imgs ! (k + 1)))
          (selectedArea (imgs ! k)) (selectedArea (imgs ! (k + 1)))\<rparr>"
proof (induction i imgs rule: translationLoop.induct)
  case (1 i imgs)
  have inrange: "int i < int (length imgs) - 1" using "1.prems"(1,2) by simp
  show ?case
  proof (cases "hasNoArea (imgs ! i) \<or> hasNoArea (imgs ! (i + 1))")
    case True
    then have "k \<noteq> i" using "1.prems"(3,4) by auto
    then have ik: "i + 1 \<le> k" using "1.prems"(1) by simp
    show ?thesis
      using "1.IH"(1)[OF inrange refl refl True ik "1.prems"(2,3,4)]
      by (simp add: translationLoop_skip[OF True])
  next
    case False
    let ?new = "(imgs ! (i + 1))\<lparr>transform :=
        calculateAlignImagesTransform
          (width (imgs ! i)) (height (imgs ! i)) (transform (imgs ! i))
          (width (imgs ! (i + 1))) (height (imgs ! (i + 1))) (transform (imgs ! (i + 1)))
          (selectedArea (imgs ! i)) (selectedArea (imgs ! (i + 1)))\<rparr>"
    let ?imgs = "imgs[i + 1 := ?new]"
    have step: "translationLoop i imgs = translationLoop (i + 1) ?imgs"
      using translationLoop_align[OF inrange] False by simp
    show ?thesis
    proof (cases "k = i")
      case True
      have a: "translationLoop (i + 1) ?imgs ! (i + 1) = ?imgs ! (i + 1)"
        using inrange by (intro translationLoop_nth_same) simp_all
      have b: "translationLoop (i + 1) ?imgs ! i = ?imgs ! i"
        using inrange by (intro translationLoop_nth_same) simp_all
      have "?imgs ! (i + 1) = ?new" using inrange by simp
      moreover have "?imgs ! i = imgs ! i" by simp
      ultimately show ?thesis using True step a b by simp
    next
      case False
      then have ik: "i + 1 \<le> k" using "1.prems"(1) by simp
      have len: "k + 1 < length ?imgs" using "1.prems"(2) by simp
      have w: "width (?imgs ! j) = width (imgs ! j)" for j
        using inrange by (cases "j = i + 1") simp_all
      have h: "height (?imgs ! j) = height (imgs ! j)" for j
        using inrange by (cases "j = i + 1") simp_all
      have s: "selectedArea (?imgs ! j) = selectedArea (imgs ! j)" for j
        using inrange by (cases "j = i + 1") simp_all
      have ak: "\<not> hasNoArea (?imgs ! k)" using "1.prems"(3) unfolding hasNoArea_def s .
      have ak1: "\<not> hasNoArea (?imgs ! (k + 1))" using "1.prems"(4) unfolding hasNoArea_def s .
      have same: "?imgs ! (k + 1) = imgs ! (k + 1)" using ik by simp
      have "translationLoop (i + 1) ?imgs ! (k + 1) =
         (?imgs ! (k + 1))\<lparr>transform :=
            calculateAlignImagesTransform
              (width (?imgs ! k)) (height (?imgs ! k)) (transform (translationLoop (i + 1) ?imgs ! k))
              (width (?imgs ! (k + 1))) (height (?imgs ! (k + 1))) (transform (?imgs ! (k + 1)))
              (selectedArea (?imgs ! k)) (selectedArea (?imgs ! (k + 1)))\<rparr>"
        using "1.IH"(2)[OF inrange refl refl \<open>\<not> (hasNoArea (imgs ! i) \<or> hasNoArea (imgs ! (i + 1)))\<close> ik len ak ak1] .
      then show ?thesis unfolding step w h s same .
    qed
  qed
qed

lemma rotationPass_only_rotation:
  "map withoutRotation (rotationPass env i imgs) = map withoutRotation imgs"
proof (induction env i imgs rule: rotationPass.induct)
  case (1 env i imgs)
  show ?case
  proof (cases "int i < int (length imgs) - 1")
    case False
    then show ?thesis by (simp add: rotationPass_done)
  next
    case inrange: True
    let ?res = "alignImages env (imgs ! i) (imgs ! (i + 1))"
    show ?thesis
    proof (cases "hasNoArea (imgs ! i) \<or> hasNoArea (imgs ! (i + 1))")
      case True
      show ?thesis
        using "1.IH"(1)[OF inrange refl refl True] by (simp add: rotationPass_skip[OF True])
    next
      case areas: False
      show ?thesis
      proof (cases "success ?res")
        case False
        show ?thesis
          using "1.IH"(3)[OF inrange refl refl areas refl False]
          by (simp add: rotationPass_failure[OF False])
      next
        case True
        let ?new = "(imgs ! (i + 1))\<lparr>transform :=
          \<lparr>scale = scale (transform (imgs ! (i + 1))),
           rotation = rotation (result_transform ?res),
           translateX = translateX (transform (imgs ! (i + 1))),
           translateY = translateY (transform (imgs ! (i + 1)))\<rparr>\<rparr>"
        let ?imgs = "imgs[i + 1 := ?new]"
        have step: "rotationPass env i imgs = rotationPass env (i + 1) ?imgs"
          using rotationPass_success[OF inrange _ _ True] areas by simp
        have "withoutRotation ?new = withoutRotation (imgs ! (i + 1))"
          by (simp add: withoutRotation_def)
        then have "map withoutRotation ?imgs = map withoutRotation imgs"
          using inrange by (simp add: map_update list_update_same_conv)
        then show ?thesis
          using "1.IH"(2)[OF inrange refl refl areas refl True] step by simp
      qed
    qed
  qed
qed

lemma withoutRotation_fields:
  "withoutRotation a = withoutRotation b \<Longrightarrow>
     scale (transform a) = scale (transform b)
   \<and> translateX (transform a) = translateX (transform b)
   \<and> translateY (transform a) = translateY (transform b)
   \<and> width a = width b \<and> height a = height b \<and> selectedArea a = selectedArea b"
  unfolding withoutRotation_def
  by (cases a, cases b) (auto dest!: arg_cong[where f = "\<lambda>t. (scale t, translateX t, translateY t)"])

lemma rotationPass_nth_fields:
  assumes "k < length imgs"
  shows "scale (transform (rotationPass env i imgs ! k)) = scale (transform (imgs ! k))
   \<and> translateX (transform (rotationPass env i imgs ! k)) = translateX (transform (imgs ! k))
   \<and> translateY (transform (rotationPass env i imgs ! k)) = translateY (transform (imgs ! k))
   \<and> width (rotationPass env i imgs ! k) = width (imgs ! k)
   \<and> height (rotationPass env i imgs ! k) = height (imgs ! k)
   \<and> selectedArea (rotationPass env i imgs ! k) = selectedArea (imgs ! k)"
proof -
  have "map withoutRotation (rotationPass env i imgs) ! k = map withoutRotation imgs ! k"
    by (simp only: rotationPass_only_rotation)
  then have "withoutRotation (rotationPass env i imgs ! k) = withoutRotation (imgs ! k)"
    using assms by (simp add: rotationPass_length)
  then show ?thesis by (rule withoutRotation_fields)
qed

lemma centerFirstImage_length: "length (centerFirstImage imgs) = length imgs"
  by (simp add: centerFirstImage_def)

lemma centerFirstImage_nth_same:
  "0 < k \<or> hasNoArea (imgs ! 0) \<Longrightarrow> centerFirstImage imgs ! k = imgs ! k"
  by (auto simp: centerFirstImage_def hasNoArea_def)

lemma centerFirstImage_first:
  "imgs \<noteq> [] \<Longrightarrow> \<not> hasNoArea (imgs ! 0) \<Longrightarrow>
   centerFirstImage imgs ! 0 =
     (imgs ! 0)\<lparr>transform :=
        calculateCenterImageTransform (width (imgs ! 0)) (height (imgs ! 0))
          (transform (imgs ! 0)) (selectedArea (imgs ! 0))\<rparr>"
  by (simp add: centerFirstImage_def hasNoArea_def)

lemma centerFirstImage_hasNoArea:
  "hasNoArea (centerFirstImage imgs ! k) = hasNoArea (imgs ! k)"
  by (cases "k = 0"; cases "imgs = []") (simp_all add: centerFirstImage_def hasNoArea_def)

lemma centerFirstImage_fields:
  "width (centerFirstImage imgs ! k) = width (imgs ! k)
   \<and> height (centerFirstImage imgs ! k) = height (imgs ! k)
   \<and> selectedArea (centerFirstImage imgs ! k) = selectedArea (imgs ! k)"
  by (cases "k = 0"; cases "imgs = []") (simp_all add: centerFirstImage_def)

lemma handlers_refuse:
  assumes "2 \<le> length images" and "j < length images" and "hasNoArea (images ! j)"
  shows "handleAutoAlign env images = (NeedAllAreas, images)"
    and "handleAlignByArea images = (NeedAllAreas, images)"
    and "handleAlignByRotation env images = (NeedAllAreas, images)"
proof -
  have "images ! j \<in> set (filter (\<lambda>img. selectedArea img = None) images)"
    using assms(2,3) by (simp add: hasNoArea_def)
  then have "0 < length (filter (\<lambda>img. selectedArea img = None) images)"
    by (rule length_pos_if_in_set)
  then show "handleAutoAlign env images = (NeedAllAreas, images)"
    and "handleAlignByArea images = (NeedAllAreas, images)"
    and "handleAlignByRotation env images = (NeedAllAreas, images)"
    using assms(1)
    by (simp_all add: handleAutoAlign_def handleAlignByArea_def handleAlignByRotation_def Let_def)
qed

lemma areaOnly_keeps:
  assumes "2 \<le> length images" and "k < length images"
    and "hasNoArea (images ! k) \<or> (0 < k \<and> hasNoArea (images ! (k - 1)))"
  shows "alignImagesByAreaOnly images ! k = images ! k"
proof -
  let ?C = "centerFirstImage images"
  have c: "?C ! k = images ! k"
    using assms(3) by (cases "k = 0") (simp_all add: centerFirstImage_nth_same)
  have "hasNoArea (?C ! (k - 1)) \<or> hasNoArea (?C ! k)"
    using assms(3) by (auto simp: centerFirstImage_hasNoArea)
  then have "translationLoop 0 ?C ! k = ?C ! k"
    using assms(2) by (intro translationLoop_nth_same) (simp_all add: centerFirstImage_length)
  then show ?thesis using assms(1) c by (simp add: alignImagesByAreaOnly_def)
qed

lemma rotationOnly_keeps:
  assumes "2 \<le> length images" and "k < length images"
    and "hasNoArea (images ! k) \<or> (0 < k \<and> hasNoArea (images ! (k - 1)))"
  shows "alignImagesByRotationOnly env images ! k = images ! k"
proof -
  have "rotationPass env 0 images ! k = images ! k"
    using assms(2,3) by (intro rotationPass_nth_same) auto
  then show ?thesis using assms(1) by (simp add: alignImagesByRotationOnly_def)
qed

lemma alignAll_as_passes:
  "2 \<le> length images \<Longrightarrow>
   alignAllImages env images = rotationPass env 0 (alignImagesByAreaOnly images)"
  by (simp add: alignAllImages_def alignImagesByAreaOnly_def)

lemma areaOnly_length: "length (alignImagesByAreaOnly images) = length images"
  by (simp add: alignImagesByAreaOnly_def translationLoop_length centerFirstImage_length)

lemma alignAll_keeps:
  assumes "2 \<le> length images" and "k < length images"
    and "hasNoArea (images ! k) \<or> (0 < k \<and> hasNoArea (images ! (k - 1)))"
  shows "alignAllImages env images ! k = images ! k"
proof -
  let ?T = "alignImagesByAreaOnly images"
  have t: "?T ! k = images ! k" using assms by (rule areaOnly_keeps)
  have "hasNoArea (?T ! (k - 1)) \<or> hasNoArea (?T ! k)"
  proof (cases "hasNoArea (images ! k)")
    case True
    then show ?thesis using t by simp
  next
    case False
    then have k: "0 < k" "hasNoArea (images ! (k - 1))" using assms(3) by auto
    have "?T ! (k - 1) = images ! (k - 1)"
      using assms(1,2) k by (intro areaOnly_keeps) auto
    then show ?thesis using k by simp
  qed
  then have "rotationPass env 0 ?T ! k = ?T ! k"
    using assms(2) by (intro rotationPass_nth_same) (simp_all add: areaOnly_length)
  then show ?thesis using assms(1) t by (simp add: alignAll_as_passes)
qed

lemma areaOnly_aligned:
  assumes "k + 1 < length images"
    and "\<not> hasNoArea (images ! k)" and "\<not> hasNoArea (images ! (k + 1))"
  shows "alignImagesByAreaOnly images ! (k + 1) =
     (images ! (k + 1))\<lparr>transform :=
        calculateAlignImagesTransform
          (width (images ! k)) (height (images ! k)) (transform (alignImagesByAreaOnly images ! k))
          (width (images ! (k + 1))) (height (images ! (k + 1))) (transform (images ! (k + 1)))
          (selectedArea (images ! k)) (selectedArea (images ! (k + 1)))\<rparr>"
proof -
  let ?C = "centerFirstImage images"
  have len: "k + 1 < length ?C" using assms(1) by (simp add: centerFirstImage_length)
  have a: "\<not> hasNoArea (?C ! k)" "\<not> hasNoArea (?C ! (k + 1))"
    using assms(2,3) by (simp_all only: centerFirstImage_hasNoArea not_False_eq_True)
  have next_same: "?C ! (k + 1) = images ! (k + 1)"
    by (rule centerFirstImage_nth_same) simp
  have two: "\<not> length images < 2" using assms(1) by simp
  show ?thesis
    using translationLoop_nth_aligned[OF _ len a, of 0]
    unfolding next_same
    by (simp add: alignImagesByAreaOnly_def two centerFirstImage_fields)
qed

lemma areaOnly_first:
  assumes "2 \<le> length images" and "\<not> hasNoArea (images ! 0)"
  shows "alignImagesByAreaOnly images ! 0 =
     (images ! 0)\<lparr>transform :=
        calculateCenterImageTransform (width (images ! 0)) (height (images ! 0))
          (transform (images ! 0)) (selectedArea (images ! 0))\<rparr>"
proof -
  let ?C = "centerFirstImage images"
  have ne: "images \<noteq> []" using assms(1) by (cases images) simp_all
  have "translationLoop 0 ?C ! 0 = ?C ! 0"
    using ne by (intro translationLoop_nth_same) (simp_all add: centerFirstImage_length)
  then show ?thesis
    using assms(1) centerFirstImage_first[OF ne assms(2)] by (simp add: alignImagesByAreaOnly_def)
qed

lemma alignAll_only_rotation:
  "map withoutRotation (alignAllImages env images) = map withoutRotation (alignImagesByAreaOnly images)"
  by (simp add: alignAllImages_def alignImagesByAreaOnly_def rotationPass_only_rotation)

lemma alignImagesTry_not_enough:
  assumes "cvLoaded env" and "selectedArea image1 \<noteq> None" and "selectedArea image2 \<noteq> None"
    and "imageToMat env (url image1) = Some mat1" and "imageToMat env (url image2) = Some mat2"
    and "extractORBFeatures env mat1 = Some (keypoints1, descriptors1)"
    and "extractORBFeatures env mat2 = Some (keypoints2, descriptors2)"
    and "matchFeatures env descriptors1 descriptors2 = Some matches"
    and "length matches < 3"
  shows "alignImagesTry env image1 image2 = Inl NotEnoughMatches"
  using assms by (simp add: alignImagesTry_def)

lemma alignImages_failure:
  "alignImagesTry env image1 image2 = Inl e \<Longrightarrow>
   alignImages env image1 image2 =
     \<lparr>success = False, result_transform = transform image2, result_error = Some e\<rparr>"
  by (simp add: alignImages_def)

lemma alignImages_scale:
  "scale (result_transform (alignImages env image1 image2)) = scale (transform image2)"
  by (simp add: alignImages_def split: sum.split)

lemma list_of_four: "length xs = 4 \<Longrightarrow> xs = [xs ! 0, xs ! 1, xs ! 2, xs ! 3]"
proof (rule nth_equalityI)
  assume l: "length xs = 4"
  then show "length xs = length [xs ! 0, xs ! 1, xs ! 2, xs ! 3]" by simp
  fix i assume "i < length xs"
  with l have "i = 0 \<or> i = 1 \<or> i = 2 \<or> i = 3" by auto
  then show "xs ! i = [xs ! 0, xs ! 1, xs ! 2, xs ! 3] ! i" by auto
qed

text \<open>
  Claim C6, as the code has it. Inside the orchestration a pair in which an image has no
  selected area is skipped in the translation pass and in the rotation pass, and the pass
  goes on with the next pair; the image without an area and the image after it come out
  of \<^verbatim>\<open>alignAllImages\<close>, \<^verbatim>\<open>alignImagesByAreaOnly\<close> and \<^verbatim>\<open>alignImagesByRotationOnly\<close> as they
  went in; a pair whose two images have areas is aligned as usual, the first image is
  centred when it has an area, and the rotation pass changes nothing but rotations.
  The handlers of the buttons never get that far: when an image of a list of at least two
  has no area they show the alert that asks for all areas and leave the list untouched.
\<close>

theorem missing_region_handling:
  "(hasNoArea (imgs ! i) \<or> hasNoArea (imgs ! (i + 1)) \<longrightarrow>
        translationLoop i imgs = translationLoop (i + 1) imgs
      \<and> rotationPass env i imgs = rotationPass env (i + 1) imgs)
   \<and> (2 \<le> length images \<and> j < length images \<and> hasNoArea (images ! j) \<longrightarrow>
        handleAutoAlign env images = (NeedAllAreas, images)
      \<and> handleAlignByArea images = (NeedAllAreas, images)
      \<and> handleAlignByRotation env images = (NeedAllAreas, images)
      \<and> alignAllImages env images ! j = images ! j
      \<and> alignImagesByAreaOnly images ! j = images ! j
      \<and> alignImagesByRotationOnly env images ! j = images ! j
      \<and> (j + 1 < length images \<longrightarrow>
            alignAllImages env images ! (j + 1) = images ! (j + 1)
          \<and> alignImagesByAreaOnly images ! (j + 1) = images ! (j + 1)
          \<and> alignImagesByRotationOnly env images ! (j + 1) = images ! (j + 1)))
   \<and> (k + 1 < length images \<and> \<not> hasNoArea (images ! k) \<and> \<not> hasNoArea (images ! (k + 1)) \<longrightarrow>
        alignImagesByAreaOnly images ! (k + 1) =
          (images ! (k + 1))\<lparr>transform :=
             calculateAlignImagesTransform
               (width (images ! k)) (height (images ! k))
               (transform (alignImagesByAreaOnly images ! k))
               (width (images ! (k + 1))) (height (images ! (k + 1)))
               (transform (images ! (k + 1)))
               (selectedArea (images ! k)) (selectedArea (images ! (k + 1)))\<rparr>)
   \<and> (2 \<le> length images \<and> \<not> hasNoArea (images ! 0) \<longrightarrow>
        alignImagesByAreaOnly images ! 0 =
          (images ! 0)\<lparr>transform :=
             calculateCenterImageTransform (width (images ! 0)) (height (images ! 0))
               (transform (images ! 0)) (selectedArea (images ! 0))\<rparr>)
   \<and> map withoutRotation (alignAllImages env images)
       = map withoutRotation (alignImagesByAreaOnly images)"
proof (intro conjI impI)
  assume "hasNoArea (imgs ! i) \<or> hasNoArea (imgs ! (i + 1))"
  then show "translationLoop i imgs = translationLoop (i + 1) imgs"
    and "rotationPass env i imgs = rotationPass env (i + 1) imgs"
    by (rule translationLoop_skip, rule rotationPass_skip)
next
  assume h: "2 \<le> length images \<and> j < length images \<and> hasNoArea (images ! j)"
  then show "handleAutoAlign env images = (NeedAllAreas, images)"
    and "handleAlignByArea images = (NeedAllAreas, images)"
    and "handleAlignByRotation env images = (NeedAllAreas, images)"
    using handlers_refuse(1)[of images j env] handlers_refuse(2)[of images j]
      handlers_refuse(3)[of images j env] by simp_all
  from h show "alignAllImages env images ! j = images ! j"
    by (intro alignAll_keeps) simp_all
  from h show "alignImagesByAreaOnly images ! j = images ! j"
    by (intro areaOnly_keeps) simp_all
  from h show "alignImagesByRotationOnly env images ! j = images ! j"
    by (intro rotationOnly_keeps) simp_all
  assume "j + 1 < length images"
  with h show "alignAllImages env images ! (j + 1) = images ! (j + 1)"
    by (intro alignAll_keeps) simp_all
  from h \<open>j + 1 < length images\<close> show "alignImagesByAreaOnly images ! (j + 1) = images ! (j + 1)"
    by (intro areaOnly_keeps) simp_all
  from h \<open>j + 1 < length images\<close> show "alignImagesByRotationOnly env images ! (j + 1) = images ! (j + 1)"
    by (intro rotationOnly_keeps) simp_all
next
  assume "k + 1 < length images \<and> \<not> hasNoArea (images ! k) \<and> \<not> hasNoArea (images ! (k + 1))"
  then show "alignImagesByAreaOnly images ! (k + 1) =
          (images ! (k + 1))\<lparr>transform :=
             calculateAlignImagesTransform
               (width (images ! k)) (height (images ! k))
               (transform (alignImagesByAreaOnly images ! k))
               (width (images ! (k + 1))) (height (images ! (k + 1)))
               (transform (images ! (k + 1)))
               (selectedArea (images ! k)) (selectedArea (images ! (k + 1)))\<rparr>"
    by (intro areaOnly_aligned) simp_all
next
  assume "2 \<le> length images \<and> \<not> hasNoArea (images ! 0)"
  then show "alignImagesByAreaOnly images ! 0 =
          (images ! 0)\<lparr>transform :=
             calculateCenterImageTransform (width (images ! 0)) (height (images ! 0))
               (transform (images ! 0)) (selectedArea (images ! 0))\<rparr>"
    by (intro areaOnly_first) simp_all
next
  show "map withoutRotation (alignAllImages env images)
       = map withoutRotation (alignImagesByAreaOnly images)"
    by (rule alignAll_only_rotation)
qed

theorem missing_region_handling_witness:
  "handleAlignByArea
     [\<lparr>img_id = ''a'', url = ''a.png'', width = 1000, height = 800,
       selectedArea = Some \<lparr>area_x = 100, area_y = 100, area_width = 50, area_height = 50\<rparr>,
       transform = \<lparr>scale = 1, rotation = 0, translateX = 0, translateY = 0\<rparr>\<rparr>,
      \<lparr>img_id = ''b'', url = ''b.png'', width = 1000, height = 800,
       selectedArea = Some \<lparr>area_x = 120, area_y = 90, area_width = 50, area_height = 50\<rparr>,
       transform = \<lparr>scale = 1, rotation = 0, translateX = 0, translateY = 0\<rparr>\<rparr>,
      \<lparr>img_id = ''c'', url = ''c.png'', width = 1000, height = 800,
       selectedArea = None,
       transform = \<lparr>scale = 1, rotation = 3, translateX = 4, translateY = 5\<rparr>\<rparr>,
      \<lparr>img_id = ''d'', url = ''d.png'', width = 1000, height = 800,
       selectedArea = Some \<lparr>area_x = 80, area_y = 110, area_width = 50, area_height = 50\<rparr>,
       transform = \<lparr>scale = 1, rotation = 6, translateX = 7, translateY = 8\<rparr>\<rparr>]
   = (NeedAllAreas,
     [\<lparr>img_id = ''a'', url = ''a.png'', width = 1000, height = 800,
       selectedArea = Some \<lparr>area_x = 100, area_y = 100, area_width = 50, area_height = 50\<rparr>,
       transform = \<lparr>scale = 1, rotation = 0, translateX = 0, translateY = 0\<rparr>\<rparr>,
      \<lparr>img_id = ''b'', url = ''b.png'', width = 1000, height = 800,
       selectedArea = Some \<lparr>area_x = 120, area_y = 90, area_width = 50, area_height = 50\<rparr>,
       transform = \<lparr>scale = 1, rotation = 0, translateX = 0, translateY = 0\<rparr>\<rparr>,
      \<lparr>img_id = ''c'', url = ''c.png'', width = 1000, height = 800,
       selectedArea = None,
       transform = \<lparr>scale = 1, rotation = 3, translateX = 4, translateY = 5\<rparr>\<rparr>,
      \<lparr>img_id = ''d'', url = ''d.png'', width = 1000, height = 800,
       selectedArea = Some \<lparr>area_x = 80, area_y = 110, area_width = 50, area_height = 50\<rparr>,
       transform = \<lparr>scale = 1, rotation = 6, translateX = 7, translateY = 8\<rparr>\<rparr>])
   \<and> alignImagesByAreaOnly
     [\<lparr>img_id = ''a'', url = ''a.png'', width = 1000, height = 800,
       selectedArea = Some \<lparr>area_x = 100, area_y = 100, area_width = 50, area_height = 50\<rparr>,
       transform = \<lparr>scale = 1, rotation = 0, translateX = 0, translateY = 0\<rparr>\<rparr>,
      \<lparr>img_id = ''b'', url = ''b.png'', width = 1000, height = 800,
       selectedArea = Some \<lparr>area_x = 120, area_y = 90, area_width = 50, area_height = 50\<rparr>,
       transform = \<lparr>scale = 1, rotation = 0, translateX = 0, translateY = 0\<rparr>\<rparr>,
      \<lparr>img_id = ''c'', url = ''c.png'', width = 1000, height = 800,
       selectedArea = None,
       transform = \<lparr>scale = 1, rotation = 3, translateX = 4, translateY = 5\<rparr>\<rparr>,
      \<lparr>img_id = ''d'', url = ''d.png'', width = 1000, height = 800,
       selectedArea = Some \<lparr>area_x = 80, area_y = 110, area_width = 50, area_height = 50\<rparr>,
       transform = \<lparr>scale = 1, rotation = 6, translateX = 7, translateY = 8\<rparr>\<rparr>]
   = [\<lparr>img_id = ''a'', url = ''a.png'', width = 1000, height = 800,
       selectedArea = Some \<lparr>area_x = 100, area_y = 100, area_width = 50, area_height = 50\<rparr>,
       transform = \<lparr>scale = 1, rotation = 0, translateX = 375, translateY = 275\<rparr>\<rparr>,
      \<lparr>img_id = ''b'', url = ''b.png'', width = 1000, height = 800,
       selectedArea = Some \<lparr>area_x = 120, area_y = 90, area_width = 50, area_height = 50\<rparr>,
       transform = \<lparr>scale = 1, rotation = 0, translateX = 355, translateY = 285\<rparr>\<rparr>,
      \<lparr>img_id = ''c'', url = ''c.png'', width = 1000, height = 800,
       selectedArea = None,
       transform = \<lparr>scale = 1, rotation = 3, translateX = 4, translateY = 5\<rparr>\<rparr>,
      \<lparr>img_id = ''d'', url = ''d.png'', width = 1000, height = 800,
       selectedArea = Some \<lparr>area_x = 80, area_y = 110, area_width = 50, area_height = 50\<rparr>,
       transform = \<lparr>scale = 1, rotation = 6, translateX = 7, translateY = 8\<rparr>\<rparr>]"
proof -
  let ?a = "\<lparr>img_id = ''a'', url = ''a.png'', width = 1000, height = 800,
       selectedArea = Some \<lparr>area_x = 100, area_y = 100, area_width = 50, area_height = 50\<rparr>,
       transform = \<lparr>scale = 1, rotation = 0, translateX = 0, translateY = 0\<rparr>\<rparr>"
  let ?b = "\<lparr>img_id = ''b'', url = ''b.png'', width = 1000, height = 800,
       selectedArea = Some \<lparr>area_x = 120, area_y = 90, area_width = 50, area_height = 50\<rparr>,
       transform = \<lparr>scale = 1, rotation = 0, translateX = 0, translateY = 0\<rparr>\<rparr>"
  let ?c = "\<lparr>img_id = ''c'', url = ''c.png'', width = 1000, height = 800,
       selectedArea = None,
       transform = \<lparr>scale = 1, rotation = 3, translateX = 4, translateY = 5\<rparr>\<rparr>"
  let ?d = "\<lparr>img_id = ''d'', url = ''d.png'', width = 1000, height = 800,
       selectedArea = Some \<lparr>area_x = 80, area_y = 110, area_width = 50, area_height = 50\<rparr>,
       transform = \<lparr>scale = 1, rotation = 6, translateX = 7, translateY = 8\<rparr>\<rparr>"
  let ?images = "[?a, ?b, ?c, ?d]"
  let ?env = "\<lparr>arith = exactArith, cvLoaded = True, imageToMat = (\<lambda>u. None :: unit option),
                extractORBFeatures = (\<lambda>m. None :: (Point list \<times> unit) option),
                bfMatch = (\<lambda>p q. None)\<rparr>"
  let ?R = "alignImagesByAreaOnly ?images"
  note inst = missing_region_handling[where imgs = ?images and i = 2 and env = ?env
      and images = ?images and j = 2 and k = 0]
  have noarea: "hasNoArea (?images ! 2)" by (simp add: hasNoArea_def)
  have areas: "\<not> hasNoArea (?images ! 0)" "\<not> hasNoArea (?images ! (0 + 1))"
    by (simp_all add: hasNoArea_def)
  have len: "2 \<le> length ?images" "2 < length ?images" "2 + 1 < length ?images"
    "0 + 1 < length ?images"
    by simp_all
  have hyp: "2 \<le> length ?images \<and> 2 < length ?images \<and> hasNoArea (?images ! 2)"
    by (simp add: hasNoArea_def)
  note skipped = inst[THEN conjunct2, THEN conjunct1, THEN mp, OF hyp]
  have handler: "handleAlignByArea ?images = (NeedAllAreas, ?images)"
    using skipped by (elim conjE)
  have r2: "?R ! 2 = ?c"
    using skipped by (elim conjE) simp
  have "2 + 1 < length ?images" by simp
  then have r3: "?R ! (2 + 1) = ?d"
    using skipped by (elim conjE impE) simp_all
  have hyp0: "2 \<le> length ?images \<and> \<not> hasNoArea (?images ! 0)"
    by (simp add: hasNoArea_def)
  have r0: "?R ! 0 = ?a\<lparr>transform := \<lparr>scale = 1, rotation = 0, translateX = 375, translateY = 275\<rparr>\<rparr>"
    using inst[THEN conjunct2, THEN conjunct2, THEN conjunct2, THEN conjunct1, THEN mp, OF hyp0]
    by (simp add: calculateCenterImageTransform_def)
  have hyp1: "0 + 1 < length ?images \<and> \<not> hasNoArea (?images ! 0) \<and> \<not> hasNoArea (?images ! (0 + 1))"
    by (simp add: hasNoArea_def)
  have r1: "?R ! 1 = ?b\<lparr>transform := \<lparr>scale = 1, rotation = 0, translateX = 355, translateY = 285\<rparr>\<rparr>"
    using inst[THEN conjunct2, THEN conjunct2, THEN conjunct1, THEN mp, OF hyp1] r0
    by (simp add: calculateAlignImagesTransform_def)
  have l: "length ?R = 4" by (simp add: areaOnly_length)
  have "?R = [?R ! 0, ?R ! 1, ?R ! 2, ?R ! 3]"
    using l by (rule list_of_four)
  also have "\<dots> = [?a\<lparr>transform := \<lparr>scale = 1, rotation = 0, translateX = 375, translateY = 275\<rparr>\<rparr>,
                     ?b\<lparr>transform := \<lparr>scale = 1, rotation = 0, translateX = 355, translateY = 285\<rparr>\<rparr>,
                     ?c, ?d]"
    using r0 r1 r2 r3 by simp
  finally show ?thesis using handler by simp
qed

text \<open>
  Claim C6 as stated fails at the handlers: with the middle image lacking its area,
  \<^verbatim>\<open>handleAlignByArea\<close> alerts and changes nothing, so the first image is not centred.
\<close>

theorem handleAlignByArea_refuses_counterexample:
  "handleAlignByArea
     [\<lparr>img_id = ''a'', url = ''a.png'', width = 1000, height = 800,
       selectedArea = Some \<lparr>area_x = 100, area_y = 100, area_width = 50, area_height = 50\<rparr>,
       transform = \<lparr>scale = 1, rotation = 0, translateX = 0, translateY = 0\<rparr>\<rparr>,
      \<lparr>img_id = ''b'', url = ''b.png'', width = 1000, height = 800,
       selectedArea = None,
       transform = \<lparr>scale = 1, rotation = 0, translateX = 0, translateY = 0\<rparr>\<rparr>,
      \<lparr>img_id = ''c'', url = ''c.png'', width = 1000, height = 800,
       selectedArea = Some \<lparr>area_x = 80, area_y = 110, area_width = 50, area_height = 50\<rparr>,
       transform = \<lparr>scale = 1, rotation = 0, translateX = 0, translateY = 0\<rparr>\<rparr>]
   = (NeedAllAreas,
      [\<lparr>img_id = ''a'', url = ''a.png'', width = 1000, height = 800,
        selectedArea = Some \<lparr>area_x = 100, area_y = 100, area_width = 50, area_height = 50\<rparr>,
        transform = \<lparr>scale = 1, rotation = 0, translateX = 0, translateY = 0\<rparr>\<rparr>,
       \<lparr>img_id = ''b'', url = ''b.png'', width = 1000, height = 800,
        selectedArea = None,
        transform = \<lparr>scale = 1, rotation = 0, translateX = 0, translateY = 0\<rparr>\<rparr>,
       \<lparr>img_id = ''c'', url = ''c.png'', width = 1000, height = 800,
        selectedArea = Some \<lparr>area_x = 80, area_y = 110, area_width = 50, area_height = 50\<rparr>,
        transform = \<lparr>scale = 1, rotation = 0, translateX = 0, translateY = 0\<rparr>\<rparr>])"
  by (simp add: handleAlignByArea_def)

text \<open>
  Claim C7. With fewer than three matches \<^verbatim>\<open>calculateOptimalRotation\<close> returns the current
  rotation it was given (in both versions of the function). When the filtered matches of
  a pair are that few, \<^verbatim>\<open>alignImages\<close> reports a failure that carries the unchanged
  transform, and the rotation pass goes on with the next pair on the unchanged list.
\<close>

theorem insufficient_correspondences:
  assumes "length matches < 3"
  shows "calculateOptimalRotation ar keypoints1 keypoints2 matches currentRotation center
           = Some \<lparr>res_rotation = currentRotation, res_translateY = 0\<rparr>
       \<and> calculateOptimalRotation_impl ar keypoints1 keypoints2 matches currentRotation center
           = Some \<lparr>res_rotation = currentRotation, res_translateY = 0\<rparr>
       \<and> (cvLoaded env \<and> selectedArea (images ! i) \<noteq> None \<and> selectedArea (images ! (i + 1)) \<noteq> None
          \<and> imageToMat env (url (images ! i)) = Some mat1
          \<and> imageToMat env (url (images ! (i + 1))) = Some mat2
          \<and> extractORBFeatures env mat1 = Some (keypoints1, descriptors1)
          \<and> extractORBFeatures env mat2 = Some (keypoints2, descriptors2)
          \<and> matchFeatures env descriptors1 descriptors2 = Some matches
          \<longrightarrow> alignImages env (images ! i) (images ! (i + 1))
                = \<lparr>success = False, result_transform = transform (images ! (i + 1)),
                   result_error = Some NotEnoughMatches\<rparr>
              \<and> rotationPass env i images = rotationPass env (i + 1) images
              \<and> length (rotationPass env i images) = length images)"
proof (intro conjI impI)
  show "calculateOptimalRotation ar keypoints1 keypoints2 matches currentRotation center
           = Some \<lparr>res_rotation = currentRotation, res_translateY = 0\<rparr>"
    using assms by (simp add: calculateOptimalRotation_def)
  show "calculateOptimalRotation_impl ar keypoints1 keypoints2 matches currentRotation center
           = Some \<lparr>res_rotation = currentRotation, res_translateY = 0\<rparr>"
    using assms by (simp add: calculateOptimalRotation_impl_def)
  show "length (rotationPass env i images) = length images"
    by (rule rotationPass_length)
next
  assume h: "cvLoaded env \<and> selectedArea (images ! i) \<noteq> None \<and> selectedArea (images ! (i + 1)) \<noteq> None
          \<and> imageToMat env (url (images ! i)) = Some mat1
          \<and> imageToMat env (url (images ! (i + 1))) = Some mat2
          \<and> extractORBFeatures env mat1 = Some (keypoints1, descriptors1)
          \<and> extractORBFeatures env mat2 = Some (keypoints2, descriptors2)
          \<and> matchFeatures env descriptors1 descriptors2 = Some matches"
  then have "alignImagesTry env (images ! i) (images ! (i + 1)) = Inl NotEnoughMatches"
    using assms alignImagesTry_not_enough[of env "images ! i" "images ! (i + 1)" mat1 mat2
        keypoints1 descriptors1 keypoints2 descriptors2 matches]
    by simp
  then have r: "alignImages env (images ! i) (images ! (i + 1))
                = \<lparr>success = False, result_transform = transform (images ! (i + 1)),
                   result_error = Some NotEnoughMatches\<rparr>"
    by (rule alignImages_failure)
  then show "alignImages env (images ! i) (images ! (i + 1))
                = \<lparr>success = False, result_transform = transform (images ! (i + 1)),
                   result_error = Some NotEnoughMatches\<rparr>" .
  from r have "\<not> success (alignImages env (images ! i) (images ! (i + 1)))" by simp
  then show "rotationPass env i images = rotationPass env (i + 1) images"
    by (rule rotationPass_failure)
qed

theorem insufficient_correspondences_witness:
  "matchFeatures
      \<lparr>arith = exactArith, cvLoaded = True, imageToMat = (\<lambda>u. Some ()),
       extractORBFeatures = (\<lambda>m. Some ([\<lparr>pt_x = 1, pt_y = 2\<rparr>, \<lparr>pt_x = 3, pt_y = 4\<rparr>], ())),
       bfMatch = (\<lambda>p q. Some [\<lparr>queryIdx = 0, trainIdx = 0, distance = 7\<rparr>,
                               \<lparr>queryIdx = 1, trainIdx = 1, distance = 9\<rparr>])\<rparr> () ()
     = Some [\<lparr>queryIdx = 0, trainIdx = 0, distance = 7\<rparr>]
   \<and> calculateOptimalRotation exactArith
       [\<lparr>pt_x = 1, pt_y = 2\<rparr>, \<lparr>pt_x = 3, pt_y = 4\<rparr>] [\<lparr>pt_x = 1, pt_y = 2\<rparr>, \<lparr>pt_x = 3, pt_y = 4\<rparr>]
       [\<lparr>queryIdx = 0, trainIdx = 0, distance = 7\<rparr>] 12 None
     = Some \<lparr>res_rotation = 12, res_translateY = 0\<rparr>
   \<and> alignImages
      \<lparr>arith = exactArith, cvLoaded = True, imageToMat = (\<lambda>u. Some ()),
       extractORBFeatures = (\<lambda>m. Some ([\<lparr>pt_x = 1, pt_y = 2\<rparr>, \<lparr>pt_x = 3, pt_y = 4\<rparr>], ())),
       bfMatch = (\<lambda>p q. Some [\<lparr>queryIdx = 0, trainIdx = 0, distance = 7\<rparr>,
                               \<lparr>queryIdx = 1, trainIdx = 1, distance = 9\<rparr>])\<rparr>
      \<lparr>img_id = ''a'', url = ''a.png'', width = 1000, height = 800,
       selectedArea = Some \<lparr>area_x = 100, area_y = 100, area_width = 50, area_height = 50\<rparr>,
       transform = \<lparr>scale = 1, rotation = 0, translateX = 375, translateY = 275\<rparr>\<rparr>
      \<lparr>img_id = ''b'', url = ''b.png'', width = 1000, height = 800,
       selectedArea = Some \<lparr>area_x = 120, area_y = 90, area_width = 50, area_height = 50\<rparr>,
       transform = \<lparr>scale = 1, rotation = 12, translateX = 355, translateY = 285\<rparr>\<rparr>
     = \<lparr>success = False,
        result_transform = \<lparr>scale = 1, rotation = 12, translateX = 355, translateY = 285\<rparr>,
        result_error = Some NotEnoughMatches\<rparr>
   \<and> rotationPass
      \<lparr>arith = exactArith, cvLoaded = True, imageToMat = (\<lambda>u. Some ()),
       extractORBFeatures = (\<lambda>m. Some ([\<lparr>pt_x = 1, pt_y = 2\<rparr>, \<lparr>pt_x = 3, pt_y = 4\<rparr>], ())),
       bfMatch = (\<lambda>p q. Some [\<lparr>queryIdx = 0, trainIdx = 0, distance = 7\<rparr>,
                               \<lparr>queryIdx = 1, trainIdx = 1, distance = 9\<rparr>])\<rparr>
      0
      [\<lparr>img_id = ''a'', url = ''a.png'', width = 1000, height = 800,
        selectedArea = Some \<lparr>area_x = 100, area_y = 100, area_width = 50, area_height = 50\<rparr>,
        transform = \<lparr>scale = 1, rotation = 0, translateX = 375, translateY = 275\<rparr>\<rparr>,
       \<lparr>img_id = ''b'', url = ''b.png'', width = 1000, height = 800,
        selectedArea = Some \<lparr>area_x = 120, area_y = 90, area_width = 50, area_height = 50\<rparr>,
        transform = \<lparr>scale = 1, rotation = 12, translateX = 355, translateY = 285\<rparr>\<rparr>]
     = [\<lparr>img_id = ''a'', url = ''a.png'', width = 1000, height = 800,
        selectedArea = Some \<lparr>area_x = 100, area_y = 100, area_width = 50, area_height = 50\<rparr>,
        transform = \<lparr>scale = 1, rotation = 0, translateX = 375, translateY = 275\<rparr>\<rparr>,
       \<lparr>img_id = ''b'', url = ''b.png'', width = 1000, height = 800,
        selectedArea = Some \<lparr>area_x = 120, area_y = 90, area_width = 50, area_height = 50\<rparr>,
        transform = \<lparr>scale = 1, rotation = 12, translateX = 355, translateY = 285\<rparr>\<rparr>]"
proof -
  let ?kps = "[\<lparr>pt_x = 1, pt_y = 2\<rparr>, \<lparr>pt_x = 3, pt_y = 4\<rparr>]"
  let ?raw = "[\<lparr>queryIdx = 0, trainIdx = 0, distance = 7\<rparr>,
               \<lparr>queryIdx = 1, trainIdx = 1, distance = 9\<rparr>]"
  let ?ms = "[\<lparr>queryIdx = 0, trainIdx = 0, distance = 7\<rparr>]"
  let ?env = "\<lparr>arith = exactArith, cvLoaded = True, imageToMat = (\<lambda>u. Some ()),
       extractORBFeatures = (\<lambda>m. Some (?kps, ())), bfMatch = (\<lambda>p q. Some ?raw)\<rparr>"
  let ?a = "\<lparr>img_id = ''a'', url = ''a.png'', width = 1000, height = 800,
       selectedArea = Some \<lparr>area_x = 100, area_y = 100, area_width = 50, area_height = 50\<rparr>,
       transform = \<lparr>scale = 1, rotation = 0, translateX = 375, translateY = 275\<rparr>\<rparr>"
  let ?b = "\<lparr>img_id = ''b'', url = ''b.png'', width = 1000, height = 800,
       selectedArea = Some \<lparr>area_x = 120, area_y = 90, area_width = 50, area_height = 50\<rparr>,
       transform = \<lparr>scale = 1, rotation = 12, translateX = 355, translateY = 285\<rparr>\<rparr>"
  let ?images = "[?a, ?b]"
  have few: "length ?ms < 3" by simp
  have median: "medianDistance ?raw = 9" by (simp add: medianDistance_def)
  have threshold: "nmin (Num 50) (nmul exactArith (Num 9) (fl exactArith (8 / 10))) = Num (36 / 5)"
    by (simp add: fl_exact nmin_def)
  have kept: "filterMatches_impl exactArith ?raw = ?ms"
    unfolding filterMatches_impl_def distanceThreshold_impl_def median threshold Let_def by simp
  have filtered: "matchFeatures ?env () () = Some ?ms"
    by (simp add: matchFeatures_def kept del: One_nat_def)
  have pair: "cvLoaded ?env \<and> selectedArea (?images ! 0) \<noteq> None
        \<and> selectedArea (?images ! (0 + 1)) \<noteq> None
        \<and> imageToMat ?env (url (?images ! 0)) = Some ()
        \<and> imageToMat ?env (url (?images ! (0 + 1))) = Some ()
        \<and> extractORBFeatures ?env () = Some (?kps, ())
        \<and> extractORBFeatures ?env () = Some (?kps, ())
        \<and> matchFeatures ?env () () = Some ?ms"
    using filtered by simp
  note inst = insufficient_correspondences[OF few, where ?keypoints1.0 = ?kps and ?keypoints2.0 = ?kps
      and ar = exactArith and currentRotation = 12 and center = None and env = ?env and images = ?images and i = 0
      and ?mat1.0 = "()" and ?mat2.0 = "()" and ?descriptors1.0 = "()" and ?descriptors2.0 = "()"]
  have rot: "calculateOptimalRotation exactArith ?kps ?kps ?ms 12 None
        = Some \<lparr>res_rotation = 12, res_translateY = 0\<rparr>"
    using inst by blast
  have res: "alignImages ?env (?images ! 0) (?images ! (0 + 1))
        = \<lparr>success = False, result_transform = transform (?images ! (0 + 1)),
           result_error = Some NotEnoughMatches\<rparr>"
    and step: "rotationPass ?env 0 ?images = rotationPass ?env (0 + 1) ?images"
    using inst pair by blast+
  have finished: "rotationPass ?env (0 + 1) ?images = ?images"
    by (rule rotationPass_done) simp
  show ?thesis using filtered rot res step finished by simp
qed

text \<open>
  Claim C9, as the code has it. The two translation solvers return scale \<open>1\<close> on every
  input, so they reset a scale that was different; the rotation solver has no scale in its
  result, \<^verbatim>\<open>alignImages\<close> hands the scale of the second image through, and the rotation
  pass keeps the scale of every image, whatever it is.
\<close>

theorem solvers_and_scale:
  "scale (calculateCenterImageTransform w h currentTransform area) = 1
   \<and> scale (calculateAlignImagesTransform w1 h1 t1 w2 h2 t2 area1 area2) = 1
   \<and> scale (result_transform (alignImages env image1 image2)) = scale (transform image2)
   \<and> map (\<lambda>img. scale (transform img)) (rotationPass env i images)
       = map (\<lambda>img. scale (transform img)) images
   \<and> map (\<lambda>img. scale (transform img)) (alignImagesByRotationOnly env images)
       = map (\<lambda>img. scale (transform img)) images"
proof (intro conjI)
  show "scale (calculateCenterImageTransform w h currentTransform area) = 1"
    by (simp add: calculateCenterImageTransform_def split: option.split prod.split)
  show "scale (calculateAlignImagesTransform w1 h1 t1 w2 h2 t2 area1 area2) = 1"
    by (simp add: calculateAlignImagesTransform_def split: option.split prod.split)
  show "scale (result_transform (alignImages env image1 image2)) = scale (transform image2)"
    by (rule alignImages_scale)
  have sc: "(\<lambda>img. scale (transform img)) = (\<lambda>img. scale (transform img)) \<circ> withoutRotation"
    by (simp add: fun_eq_iff withoutRotation_def)
  have "map ((\<lambda>img. scale (transform img)) \<circ> withoutRotation) (rotationPass env j images)
       = map ((\<lambda>img. scale (transform img)) \<circ> withoutRotation) images" for j
    by (simp only: map_map[symmetric] rotationPass_only_rotation)
  then have pass: "map (\<lambda>img. scale (transform img)) (rotationPass env j images)
       = map (\<lambda>img. scale (transform img)) images" for j
    using sc by simp
  show "map (\<lambda>img. scale (transform img)) (rotationPass env i images)
       = map (\<lambda>img. scale (transform img)) images"
    by (rule pass)
  show "map (\<lambda>img. scale (transform img)) (alignImagesByRotationOnly env images)
       = map (\<lambda>img. scale (transform img)) images"
    by (simp add: alignImagesByRotationOnly_def pass)
qed

text \<open>
  Claim C9 as stated fails: a current transform of scale \<open>2\<close> comes back with another
  scale, so the image's scale has been changed.
\<close>

theorem scale_changed_counterexample:
  "scale (calculateCenterImageTransform 1000 800
            \<lparr>scale = 2, rotation = 0, translateX = 0, translateY = 0\<rparr>
            (Some \<lparr>area_x = 100, area_y = 100, area_width = 50, area_height = 50\<rparr>))
   \<noteq> scale \<lparr>scale = 2, rotation = 0, translateX = 0, translateY = 0\<rparr>"
  by (simp add: calculateCenterImageTransform_def)

end
